theory Spec2Isabelle
  imports Main "HOL-Library.Sublist" "HOL-Library.AList"
begin

section \<open>The cross-compilation build script \<^verbatim>\<open>build-cross.py\<close>\<close>

text \<open>
  A shallow embedding of \<^verbatim>\<open>build-cross.py\<close>. A Python dictionary of strings is an
  association list in insertion order, read with \<open>map_of\<close> and written with
  \<open>AList.update\<close>, which keeps the place of a key that is already present, as an
  assignment to a dictionary does; a \<^verbatim>\<open>pathlib.Path\<close> is the list of its components below the
  root, so that the operator \<^verbatim>\<open>/\<close> with a single relative component appends it; an
  exception that leaves a function is the \<open>Inl\<close> branch of a sum.
\<close>

subsection \<open>Strings\<close>

text \<open>\<^verbatim>\<open>str.replace(old, new)\<close> for one-character \<^verbatim>\<open>old\<close> and \<^verbatim>\<open>new\<close>.\<close>

definition replace :: "char \<Rightarrow> char \<Rightarrow> string \<Rightarrow> string" where
  "replace old new s = map (\<lambda>c. if c = old then new else c) s"

text \<open>\<^verbatim>\<open>str.upper()\<close> on ASCII text: the 26 lower-case letters are mapped, every other
  character is kept.\<close>

definition upper_char :: "char \<Rightarrow> char" where
  "upper_char c =
     (case map_of (zip ''abcdefghijklmnopqrstuvwxyz'' ''ABCDEFGHIJKLMNOPQRSTUVWXYZ'') c of
        Some u \<Rightarrow> u
      | None \<Rightarrow> c)"

definition upper :: "string \<Rightarrow> string" where
  "upper s = map upper_char s"

text \<open>\<^verbatim>\<open>sub in s\<close> for strings: \<^verbatim>\<open>sub\<close> occurs as a contiguous block of \<^verbatim>\<open>s\<close>.\<close>

fun starts_with :: "string \<Rightarrow> string \<Rightarrow> bool" where
  "starts_with [] s = True"
| "starts_with (c # cs) [] = False"
| "starts_with (c # cs) (d # ds) = (c = d \<and> starts_with cs ds)"

fun contains :: "string \<Rightarrow> string \<Rightarrow> bool" where
  "contains sub [] = (sub = [])"
| "contains sub (d # ds) = (starts_with sub (d # ds) \<or> contains sub ds)"

text \<open>\<^verbatim>\<open>sep.join(xs)\<close>.\<close>

fun join :: "string \<Rightarrow> string list \<Rightarrow> string" where
  "join sep [] = []"
| "join sep [x] = x"
| "join sep (x # y # ys) = x @ sep @ join sep (y # ys)"

text \<open>\<^verbatim>\<open>str(n)\<close> for an integer: decimal digits, with a minus sign below zero.\<close>

definition digit_char :: "nat \<Rightarrow> char" where
  "digit_char d = ''0123456789'' ! d"

fun str_nat :: "nat \<Rightarrow> string" where
  "str_nat n = (if n < 10 then [digit_char n] else str_nat (n div 10) @ [digit_char (n mod 10)])"

declare str_nat.simps [simp del]

definition str_int :: "int \<Rightarrow> string" where
  "str_int i = (if i < 0 then ''-'' @ str_nat (nat (- i)) else str_nat (nat i))"

subsection \<open>Paths\<close>

type_synonym path = "string list"

text \<open>\<^verbatim>\<open>str(path)\<close> of an absolute POSIX path.\<close>

definition path_str :: "path \<Rightarrow> string" where
  "path_str p = (if p = [] then ''/'' else concat (map (\<lambda>c. ''/'' @ c) p))"

definition OUTPUT_DIR :: path where
  "OUTPUT_DIR = [''mnt'', ''c'', ''code'']"

definition LLVM_MINGW :: path where
  "LLVM_MINGW = [''root'', ''toolchains'', ''llvm-mingw'', ''bin'']"

subsection \<open>The target registry\<close>

record target =
  triple :: string
  cc :: string
  ar :: string
  linker :: string
  use_llvm_mingw :: bool

text \<open>The dictionary \<^verbatim>\<open>TARGETS\<close>, in insertion order.\<close>

definition TARGETS :: "(string \<times> target) list" where
  "TARGETS =
     [(''x64'',
        \<lparr>triple = ''x86_64-pc-windows-gnu'', cc = ''x86_64-w64-mingw32-gcc'',
         ar = ''x86_64-w64-mingw32-ar'', linker = ''x86_64-w64-mingw32-gcc'',
         use_llvm_mingw = False\<rparr>),
      (''arm64'',
        \<lparr>triple = ''aarch64-pc-windows-gnullvm'', cc = ''aarch64-w64-mingw32-clang'',
         ar = ''llvm-ar'', linker = ''aarch64-w64-mingw32-clang'',
         use_llvm_mingw = True\<rparr>)]"

datatype py_error = KeyError string | OSError

type_synonym env = "(string \<times> string) list"

subsection \<open>Environment derivation\<close>

text \<open>
  \<^verbatim>\<open>get_env_for_target\<close>; its first argument is \<^verbatim>\<open>os.environ\<close>. \<^verbatim>\<open>TARGETS[target_name]\<close>
  and \<^verbatim>\<open>env['PATH']\<close> raise \<^verbatim>\<open>KeyError\<close> on a missing key.
\<close>

definition get_env_for_target :: "env \<Rightarrow> string \<Rightarrow> py_error + env" where
  "get_env_for_target environ target_name =
     (case map_of TARGETS target_name of
        None \<Rightarrow> Inl (KeyError target_name)
      | Some target \<Rightarrow>
          (let env_triple = replace CHR ''-'' CHR ''_'' (triple target) in
           (case (if use_llvm_mingw target
                  then (case map_of environ ''PATH'' of
                          None \<Rightarrow> Inl (KeyError ''PATH'')
                        | Some p \<Rightarrow>
                            Inr (AList.update ''PATH'' (path_str LLVM_MINGW @ '':'' @ p) environ))
                  else Inr environ) of
              Inl e \<Rightarrow> Inl e
            | Inr env1 \<Rightarrow>
                (let env2 = AList.update (''CC_'' @ env_triple) (cc target) env1;
                     env3 = AList.update (''AR_'' @ env_triple) (ar target) env2;
                     env4 = AList.update (''CARGO_TARGET_'' @ upper env_triple @ ''_LINKER'')
                              (linker target) env3
                 in Inr (if contains ''gnullvm'' (triple target)
                         then AList.update
                                (''CARGO_TARGET_'' @ upper env_triple @ ''_RUSTFLAGS'')
                                ''-C target-feature=+crt-static'' env4
                         else env4)))))"

subsection \<open>The host: environment, file system, external processes\<close>

text \<open>
  What the script reads from its host is a parameter of the model. \<open>subprocess_run\<close> is
  the behaviour of \<^verbatim>\<open>subprocess.run(cmd, env=..., cwd=..., check=True)\<close>: from the command,
  the environment, the working directory and the paths that exist, the process either
  exits with a status and leaves a set of existing paths, or cannot be started at all
  (\<^verbatim>\<open>FileNotFoundError\<close>, \<^verbatim>\<open>PermissionError\<close>: an \<^verbatim>\<open>OSError\<close>). \<open>mkdir_ok\<close> and
  \<open>copy2_ok\<close> say whether the operating system lets \<^verbatim>\<open>Path.mkdir\<close> and
  \<^verbatim>\<open>shutil.copy2\<close> complete; otherwise they raise \<^verbatim>\<open>OSError\<close>.
\<close>

datatype proc_result = Exited int | SpawnFailed

record world =
  os_environ :: env
  PROJECT_DIR :: path
  CPU_COUNT :: int
  shutil_which :: "string \<Rightarrow> bool"
  subprocess_run :: "string list \<Rightarrow> env \<Rightarrow> path \<Rightarrow> path set \<Rightarrow> proc_result \<times> path set"
  mkdir_ok :: "path \<Rightarrow> bool"
  copy2_ok :: "path \<Rightarrow> path \<Rightarrow> bool"

text \<open>
  The state the script changes: the paths that exist, the processes it has asked
  \<^verbatim>\<open>subprocess.run\<close> to start (command, environment, working directory, in order), the
  copies \<^verbatim>\<open>shutil.copy2\<close> has completed, and the lines printed. A leading newline of a
  printed text is an empty line. The banners and the summary line with the file size,
  which format floating-point numbers, are not part of \<open>out\<close>.
\<close>

record state =
  files :: "path set"
  calls :: "(string list \<times> env \<times> path) list"
  copied :: "(path \<times> path) list"
  out :: "string list"

definition print_lines :: "string list \<Rightarrow> state \<Rightarrow> state" where
  "print_lines ls st = st\<lparr>out := out st @ ls\<rparr>"

definition TARGET_DIR :: "world \<Rightarrow> path" where
  "TARGET_DIR w = PROJECT_DIR w @ [''target'']"

subsection \<open>The command runner\<close>

text \<open>
  \<^verbatim>\<open>run_command\<close>. Only \<^verbatim>\<open>subprocess.CalledProcessError\<close> (a non-zero exit status under
  \<^verbatim>\<open>check=True\<close>) is caught; the \<^verbatim>\<open>OSError\<close> of a process that cannot be started leaves
  the function. \<^verbatim>\<open>env or os.environ\<close> takes \<^verbatim>\<open>os.environ\<close> for \<^verbatim>\<open>None\<close> and for the empty
  dictionary.
\<close>

definition run_command ::
  "world \<Rightarrow> string list \<Rightarrow> env option \<Rightarrow> path option \<Rightarrow> state \<Rightarrow> (py_error + bool) \<times> state" where
  "run_command w cmd env cwd st =
     (let st1 = print_lines ['''', ''>>> Running: '' @ join '' '' cmd] st;
          e = (case env of
                 None \<Rightarrow> os_environ w
               | Some e' \<Rightarrow> if e' = [] then os_environ w else e');
          d = (case cwd of None \<Rightarrow> PROJECT_DIR w | Some d' \<Rightarrow> d');
          st2 = st1\<lparr>calls := calls st1 @ [(cmd, e, d)]\<rparr>
      in (case subprocess_run w cmd e d (files st2) of
            (SpawnFailed, fs) \<Rightarrow> (Inl OSError, st2)
          | (Exited c, fs) \<Rightarrow>
              (if c = 0 then (Inr True, st2\<lparr>files := fs\<rparr>)
               else (Inr False,
                     print_lines [''Error: Command failed with exit code '' @ str_int c]
                       (st2\<lparr>files := fs\<rparr>)))))"

subsection \<open>Prerequisites and toolchain targets\<close>

definition check_prerequisites :: "world \<Rightarrow> state \<Rightarrow> bool \<times> state" where
  "check_prerequisites w st =
     (let st1 = print_lines [''Checking prerequisites...''] st in
      if \<not> shutil_which w ''cargo''
      then (False, print_lines [''Error: cargo not found''] st1)
      else if \<not> shutil_which w ''x86_64-w64-mingw32-gcc''
      then (False, print_lines [''Error: x86_64-w64-mingw32-gcc not found'',
                                ''Install with: apt install gcc-mingw-w64-x86-64''] st1)
      else if LLVM_MINGW @ [''aarch64-w64-mingw32-clang''] \<notin> files st1
      then (False, print_lines [''Error: llvm-mingw not found at '' @ path_str LLVM_MINGW,
                                ''ARM64 builds will not be available''] st1)
      else (True, print_lines [''All prerequisites met.''] st1))"

text \<open>The loop of \<^verbatim>\<open>ensure_targets\<close> over \<^verbatim>\<open>TARGETS.items()\<close>.\<close>

fun ensure_targets_loop ::
  "world \<Rightarrow> (string \<times> target) list \<Rightarrow> state \<Rightarrow> (py_error + bool) \<times> state" where
  "ensure_targets_loop w [] st = (Inr True, st)"
| "ensure_targets_loop w ((name, target) # ts) st =
     (case run_command w [''rustup'', ''target'', ''add'', triple target] None None st of
        (Inl e, st1) \<Rightarrow> (Inl e, st1)
      | (Inr ok, st1) \<Rightarrow>
          (if \<not> ok
           then (Inr False, print_lines [''Failed to add target '' @ triple target] st1)
           else ensure_targets_loop w ts st1))"

definition ensure_targets :: "world \<Rightarrow> state \<Rightarrow> (py_error + bool) \<times> state" where
  "ensure_targets w st =
     ensure_targets_loop w TARGETS
       (print_lines ['''', ''Ensuring Rust targets are installed...''] st)"

subsection \<open>Artifact paths and staging\<close>

definition get_build_output_path :: "world \<Rightarrow> string \<Rightarrow> py_error + path" where
  "get_build_output_path w target_name =
     (case map_of TARGETS target_name of
        None \<Rightarrow> Inl (KeyError target_name)
      | Some target \<Rightarrow> Inr (TARGET_DIR w @ [triple target, ''release'', ''htop-win.exe'']))"

text \<open>The file name is one path component for every target name without a slash, as
  the registered names are.\<close>

definition get_final_output_path :: "string \<Rightarrow> path" where
  "get_final_output_path target_name = OUTPUT_DIR @ [''htop-win-'' @ target_name @ ''.exe'']"

text \<open>
  \<^verbatim>\<open>copy_to_output\<close>. \<^verbatim>\<open>OUTPUT_DIR.mkdir(parents=True, exist_ok=True)\<close> makes the directory and
  its ancestors exist.
\<close>

definition copy_to_output :: "world \<Rightarrow> string \<Rightarrow> state \<Rightarrow> (py_error + path option) \<times> state" where
  "copy_to_output w target_name st =
     (case get_build_output_path w target_name of
        Inl e \<Rightarrow> (Inl e, st)
      | Inr build_path \<Rightarrow>
          (let final_path = get_final_output_path target_name in
           if build_path \<notin> files st
           then (Inr None,
                 print_lines [''Error: Built executable not found at '' @ path_str build_path] st)
           else if \<not> mkdir_ok w OUTPUT_DIR then (Inl OSError, st)
           else
             (let st1 = print_lines ['''', ''>>> Copying '' @ path_str build_path @ '' -> ''
                                            @ path_str final_path]
                          (st\<lparr>files := files st \<union> set (prefixes OUTPUT_DIR)\<rparr>)
              in if \<not> copy2_ok w build_path final_path then (Inl OSError, st1)
                 else (Inr (Some final_path),
                       st1\<lparr>files := insert final_path (files st1),
                           copied := copied st1 @ [(build_path, final_path)]\<rparr>))))"

subsection \<open>Building and checking one target\<close>

definition build_cmd :: "string \<Rightarrow> int \<Rightarrow> string list" where
  "build_cmd tr num_jobs =
     [''cargo'', ''build'', ''--release'', ''--target'', tr, ''-j'', str_int num_jobs]"

definition build_target ::
  "world \<Rightarrow> string \<Rightarrow> int option \<Rightarrow> state \<Rightarrow> (py_error + bool) \<times> state" where
  "build_target w target_name jobs st =
     (case map_of TARGETS target_name of
        None \<Rightarrow> (Inl (KeyError target_name), st)
      | Some target \<Rightarrow>
          (let num_jobs = (case jobs of Some j \<Rightarrow> j | None \<Rightarrow> CPU_COUNT w) in
           (case get_env_for_target (os_environ w) target_name of
              Inl e \<Rightarrow> (Inl e, st)
            | Inr env \<Rightarrow>
                run_command w (build_cmd (triple target) num_jobs)
                  (Some (AList.update ''CARGO_BUILD_JOBS'' (str_int num_jobs) env))
                  (Some (PROJECT_DIR w)) st)))"

definition check_cmd :: "string \<Rightarrow> string list" where
  "check_cmd tr = [''cargo'', ''check'', ''--target'', tr]"

definition check_target :: "world \<Rightarrow> string \<Rightarrow> state \<Rightarrow> (py_error + bool) \<times> state" where
  "check_target w target_name st =
     (case map_of TARGETS target_name of
        None \<Rightarrow> (Inl (KeyError target_name), st)
      | Some target \<Rightarrow>
          (case get_env_for_target (os_environ w) target_name of
             Inl e \<Rightarrow> (Inl e, st)
           | Inr env \<Rightarrow>
               run_command w (check_cmd (triple target)) (Some env) (Some (PROJECT_DIR w)) st))"

subsection \<open>The entry point\<close>

text \<open>
  The parsed command line: \<^verbatim>\<open>argparse\<close> admits the three actions, the target names
  \<^verbatim>\<open>x64\<close> and \<^verbatim>\<open>arm64\<close>, and an optional integer job count.
\<close>

datatype action = Check | Build | BuildAll

record args =
  args_action :: action
  args_target :: string
  args_jobs :: "int option"

text \<open>
  The result of \<^verbatim>\<open>main\<close> is the argument of \<^verbatim>\<open>sys.exit\<close> (\<open>0\<close> when \<^verbatim>\<open>main\<close> returns), or
  the exception that leaves it. The interpreter ends with status \<open>1\<close> on an uncaught
  exception.
\<close>

definition exit_status :: "py_error + nat \<Rightarrow> nat" where
  "exit_status r = (case r of Inl e \<Rightarrow> 1 | Inr c \<Rightarrow> c)"

text \<open>The branch \<^verbatim>\<open>args.action == "check"\<close>.\<close>

definition main_check :: "world \<Rightarrow> args \<Rightarrow> state \<Rightarrow> (py_error + nat) \<times> state" where
  "main_check w a st =
     (case ensure_targets w st of
        (Inl e, st1) \<Rightarrow> (Inl e, st1)
      | (Inr ok, st1) \<Rightarrow>
          (if \<not> ok then (Inr 1, st1)
           else (case check_target w (args_target a) st1 of
                   (Inl e, st2) \<Rightarrow> (Inl e, st2)
                 | (Inr ok', st2) \<Rightarrow>
                     (if \<not> ok' then (Inr 1, st2)
                      else (Inr 0, print_lines ['''', args_target a @ '' check passed!'',
                                                '''', ''Done!''] st2)))))"

text \<open>The branch \<^verbatim>\<open>args.action == "build"\<close>.\<close>

definition main_build :: "world \<Rightarrow> args \<Rightarrow> state \<Rightarrow> (py_error + nat) \<times> state" where
  "main_build w a st =
     (case ensure_targets w st of
        (Inl e, st1) \<Rightarrow> (Inl e, st1)
      | (Inr ok, st1) \<Rightarrow>
          (if \<not> ok then (Inr 1, st1)
           else (case build_target w (args_target a) (args_jobs a) st1 of
                   (Inl e, st2) \<Rightarrow> (Inl e, st2)
                 | (Inr ok', st2) \<Rightarrow>
                     (if \<not> ok' then (Inr 1, st2)
                      else (case copy_to_output w (args_target a) st2 of
                              (Inl e, st3) \<Rightarrow> (Inl e, st3)
                            | (Inr (Some output), st3) \<Rightarrow>
                                (Inr 0, print_lines ['''', ''Build successful!'',
                                                     ''  Output: '' @ path_str output,
                                                     '''', ''Done!''] st3)
                            | (Inr None, st3) \<Rightarrow>
                                (case get_build_output_path w (args_target a) of
                                   Inl e \<Rightarrow> (Inl e, st3)
                                 | Inr build_path \<Rightarrow>
                                     (Inr 1, print_lines ['''',
                                        ''Build completed but output not found at ''
                                          @ path_str build_path] st3)))))))"

text \<open>
  The first loop of the branch \<^verbatim>\<open>args.action == "build-all"\<close>: one \<^verbatim>\<open>build_target\<close> per key
  of \<^verbatim>\<open>TARGETS\<close>, the result stored in the dictionary \<^verbatim>\<open>results\<close>. The keys are distinct,
  so every assignment adds an entry at the end.
\<close>

fun build_all_loop ::
  "world \<Rightarrow> int option \<Rightarrow> string list \<Rightarrow> (string \<times> bool) list \<Rightarrow> state
     \<Rightarrow> (py_error + (string \<times> bool) list) \<times> state" where
  "build_all_loop w jobs [] results st = (Inr results, st)"
| "build_all_loop w jobs (target_name # ns) results st =
     (case build_target w target_name jobs st of
        (Inl e, st1) \<Rightarrow> (Inl e, st1)
      | (Inr ok, st1) \<Rightarrow> build_all_loop w jobs ns (results @ [(target_name, ok)]) st1)"

text \<open>The second loop, over \<^verbatim>\<open>results.items()\<close>, computing \<^verbatim>\<open>all_success\<close>. The call
  \<^verbatim>\<open>output.stat()\<close> on the file just copied is taken to succeed.\<close>

fun summary_loop ::
  "world \<Rightarrow> (string \<times> bool) list \<Rightarrow> bool \<Rightarrow> state \<Rightarrow> (py_error + bool) \<times> state" where
  "summary_loop w [] all_success st = (Inr all_success, st)"
| "summary_loop w ((target_name, success) # rs) all_success st =
     (if success
      then (case copy_to_output w target_name st of
              (Inl e, st1) \<Rightarrow> (Inl e, st1)
            | (Inr (Some output), st1) \<Rightarrow> summary_loop w rs all_success st1
            | (Inr None, st1) \<Rightarrow>
                summary_loop w rs False
                  (print_lines [''  '' @ target_name @ '': FAILED to copy''] st1))
      else summary_loop w rs False
             (print_lines [''  '' @ target_name @ '': FAILED to build''] st))"

definition main_build_all :: "world \<Rightarrow> args \<Rightarrow> state \<Rightarrow> (py_error + nat) \<times> state" where
  "main_build_all w a st =
     (case ensure_targets w st of
        (Inl e, st1) \<Rightarrow> (Inl e, st1)
      | (Inr ok, st1) \<Rightarrow>
          (if \<not> ok then (Inr 1, st1)
           else (case build_all_loop w (args_jobs a) (map fst TARGETS) [] st1 of
                   (Inl e, st2) \<Rightarrow> (Inl e, st2)
                 | (Inr results, st2) \<Rightarrow>
                     (case summary_loop w results True st2 of
                        (Inl e, st3) \<Rightarrow> (Inl e, st3)
                      | (Inr all_success, st3) \<Rightarrow>
                          (if \<not> all_success then (Inr 1, st3)
                           else (Inr 0, print_lines ['''', ''Done!''] st3))))))"

text \<open>
  \<^verbatim>\<open>main\<close>, after the command line is parsed. \<^verbatim>\<open>get_system_memory_gb\<close> only feeds the
  banner and catches every exception of its own.
\<close>

definition main :: "world \<Rightarrow> args \<Rightarrow> state \<Rightarrow> (py_error + nat) \<times> state" where
  "main w a st =
     (case check_prerequisites w st of
        (ok, st1) \<Rightarrow>
          (if \<not> ok then (Inr 1, st1)
           else (case args_action a of
                   Check \<Rightarrow> main_check w a st1
                 | Build \<Rightarrow> main_build w a st1
                 | BuildAll \<Rightarrow> main_build_all w a st1)))"

text \<open>Observations of a run used in the statements below.\<close>

definition commands :: "state \<Rightarrow> string list list" where
  "commands st = map fst (calls st)"

definition envs :: "state \<Rightarrow> env list" where
  "envs st = map (\<lambda>c. fst (snd c)) (calls st)"

definition registered :: "string \<Rightarrow> bool" where
  "registered n = (n \<in> set (map fst TARGETS))"

subsection \<open>Example hosts\<close>

text \<open>
  Concrete hosts on which the statements below are evaluated. \<open>fake_run outcome writes\<close>
  is an external tool set: a command ends as \<open>outcome\<close> says, and a \<^verbatim>\<open>cargo build\<close> that
  exits with status \<open>0\<close> leaves its executable under the working directory when
  \<open>writes\<close> holds.
\<close>

definition fake_run ::
  "(string list \<Rightarrow> proc_result) \<Rightarrow> bool
     \<Rightarrow> string list \<Rightarrow> env \<Rightarrow> path \<Rightarrow> path set \<Rightarrow> proc_result \<times> path set" where
  "fake_run outcome writes cmd e d fs =
     (outcome cmd,
      if writes \<and> outcome cmd = Exited 0 \<and> take 2 cmd = [''cargo'', ''build'']
      then insert (d @ [''target'', cmd ! 4, ''release'', ''htop-win.exe'']) fs
      else fs)"

definition host :: "env \<Rightarrow> (string list \<Rightarrow> proc_result) \<Rightarrow> bool \<Rightarrow> world" where
  "host environ outcome writes =
     \<lparr>os_environ = environ, PROJECT_DIR = [''src'', ''htop-win''], CPU_COUNT = 8,
      shutil_which = (\<lambda>n. True), subprocess_run = fake_run outcome writes,
      mkdir_ok = (\<lambda>p. True), copy2_ok = (\<lambda>s d. True)\<rparr>"

definition all_succeed :: "string list \<Rightarrow> proc_result" where
  "all_succeed cmd = Exited 0"

definition x64_build_fails :: "string list \<Rightarrow> proc_result" where
  "x64_build_fails cmd =
     (if cmd = build_cmd ''x86_64-pc-windows-gnu'' 8 then Exited 101 else Exited 0)"

definition arm64_install_fails :: "string list \<Rightarrow> proc_result" where
  "arm64_install_fails cmd =
     (if cmd = [''rustup'', ''target'', ''add'', ''aarch64-pc-windows-gnullvm'']
      then Exited 1 else Exited 0)"

definition no_rustup :: "string list \<Rightarrow> proc_result" where
  "no_rustup cmd = (if take 1 cmd = [''rustup''] then SpawnFailed else Exited 0)"

definition usr_bin :: env where
  "usr_bin = [(''PATH'', ''/usr/bin'')]"

text \<open>The initial state: the ARM64 compiler of llvm-mingw is installed, nothing has
  run.\<close>

definition state0 :: state where
  "state0 = \<lparr>files = {LLVM_MINGW @ [''aarch64-w64-mingw32-clang'']}, calls = [], copied = [],
          out = []\<rparr>"

definition jobs_hints :: "state \<Rightarrow> string option list" where
  "jobs_hints st = map (\<lambda>e. map_of e ''CARGO_BUILD_JOBS'') (envs st)"


definition install_cmd :: "string \<Rightarrow> string list" where
  "install_cmd tr = [''rustup'', ''target'', ''add'', tr]"

text \<open>The environment and the working directory \<^verbatim>\<open>run_command\<close> passes to
  \<^verbatim>\<open>subprocess.run\<close>: \<^verbatim>\<open>env or os.environ\<close> and \<^verbatim>\<open>cwd or PROJECT_DIR\<close>.\<close>

definition chosen_env :: "world \<Rightarrow> env option \<Rightarrow> env" where
  "chosen_env w env =
     (case env of None \<Rightarrow> os_environ w | Some e' \<Rightarrow> if e' = [] then os_environ w else e')"

definition chosen_cwd :: "world \<Rightarrow> path option \<Rightarrow> path" where
  "chosen_cwd w cwd = (case cwd of None \<Rightarrow> PROJECT_DIR w | Some d' \<Rightarrow> d')"

text \<open>Hosts without \<^verbatim>\<open>cargo\<close> and without the x64 compiler on the search path, and a state
  in which no file exists.\<close>

definition no_cargo :: world where
  "no_cargo = (host usr_bin all_succeed True)\<lparr>shutil_which := (\<lambda>n. n \<noteq> ''cargo'')\<rparr>"

definition no_gcc :: world where
  "no_gcc = (host usr_bin all_succeed True)
              \<lparr>shutil_which := (\<lambda>n. n \<noteq> ''x86_64-w64-mingw32-gcc'')\<rparr>"

definition st_bare :: state where
  "st_bare = \<lparr>files = {}, calls = [], copied = [], out = []\<rparr>"

definition build_all :: args where
  "build_all = \<lparr>args_action = BuildAll, args_target = ''x64'', args_jobs = None\<rparr>"

definition build_x64 :: args where
  "build_x64 = \<lparr>args_action = Build, args_target = ''x64'', args_jobs = None\<rparr>"

definition check_x64 :: args where
  "check_x64 = \<lparr>args_action = Check, args_target = ''x64'', args_jobs = Some 4\<rparr>"

text \<open>The states of a run after the prerequisite check and after the installation of
  the toolchain targets.\<close>

definition after_prereq :: "world \<Rightarrow> state \<Rightarrow> state" where
  "after_prereq w st = snd (check_prerequisites w st)"

definition after_ensure :: "world \<Rightarrow> state \<Rightarrow> state" where
  "after_ensure w st = snd (ensure_targets w (after_prereq w st))"

definition x64_exe :: path where
  "x64_exe = [''src'', ''htop-win'', ''target'', ''x86_64-pc-windows-gnu'', ''release'',
              ''htop-win.exe'']"

definition arm64_exe :: path where
  "arm64_exe = [''src'', ''htop-win'', ''target'', ''aarch64-pc-windows-gnullvm'', ''release'',
                ''htop-win.exe'']"

text \<open>A tool set whose first installation fails, and a host on which the staged x64
  executable cannot be overwritten (as when the file is in use).\<close>

definition x64_install_fails :: "string list \<Rightarrow> proc_result" where
  "x64_install_fails cmd =
     (if cmd = [''rustup'', ''target'', ''add'', ''x86_64-pc-windows-gnu'']
      then Exited 1 else Exited 0)"

definition locked_x64 :: world where
  "locked_x64 = (host usr_bin all_succeed True)
                  \<lparr>copy2_ok := (\<lambda>s d. d \<noteq> [''mnt'', ''c'', ''code'', ''htop-win-x64.exe''])\<rparr>"

text \<open>The job count a run uses, and what it means for a started process to carry it:
  a \<^verbatim>\<open>cargo build\<close> has \<^verbatim>\<open>CARGO_BUILD_JOBS\<close> bound to the count in its environment and
  the count after \<^verbatim>\<open>-j\<close> on its command line.\<close>

definition num_jobs_of :: "world \<Rightarrow> int option \<Rightarrow> int" where
  "num_jobs_of w jobs = (case jobs of Some j \<Rightarrow> j | None \<Rightarrow> CPU_COUNT w)"

definition hinted :: "int \<Rightarrow> string list \<times> env \<times> path \<Rightarrow> bool" where
  "hinted j c =
     (take 2 (fst c) = [''cargo'', ''build''] \<longrightarrow>
        map_of (fst (snd c)) ''CARGO_BUILD_JOBS'' = Some (str_int j)
        \<and> drop 5 (fst c) = [''-j'', str_int j])"

text \<open>Every process started between two states of a run carries the job count.\<close>

definition only_hinted :: "int \<Rightarrow> state \<Rightarrow> state \<Rightarrow> bool" where
  "only_hinted j st st' = (\<forall>c\<in>set (calls st'). c \<in> set (calls st) \<or> hinted j c)"

definition build_x64_j4 :: args where
  "build_x64_j4 = \<lparr>args_action = Build, args_target = ''x64'', args_jobs = Some 4\<rparr>"


section \<open>Properties\<close>

subsection \<open>The registry and the derived environments\<close>

lemma map_of_TARGETS_cases:
  assumes "map_of TARGETS n = Some t"
  shows "(n = ''x64'' \<and> t = \<lparr>triple = ''x86_64-pc-windows-gnu'', cc = ''x86_64-w64-mingw32-gcc'',
            ar = ''x86_64-w64-mingw32-ar'', linker = ''x86_64-w64-mingw32-gcc'',
            use_llvm_mingw = False\<rparr>)
       \<or> (n = ''arm64'' \<and> t = \<lparr>triple = ''aarch64-pc-windows-gnullvm'',
            cc = ''aarch64-w64-mingw32-clang'', ar = ''llvm-ar'',
            linker = ''aarch64-w64-mingw32-clang'', use_llvm_mingw = True\<rparr>)"
  using assms by (auto simp: TARGETS_def split: if_splits)

lemma registered_iff: "registered n \<longleftrightarrow> n = ''x64'' \<or> n = ''arm64''"
  by (auto simp: registered_def TARGETS_def)

lemma get_env_x64:
  "get_env_for_target environ ''x64'' =
     Inr (AList.update ''CARGO_TARGET_X86_64_PC_WINDOWS_GNU_LINKER'' ''x86_64-w64-mingw32-gcc''
           (AList.update ''AR_x86_64_pc_windows_gnu'' ''x86_64-w64-mingw32-ar''
             (AList.update ''CC_x86_64_pc_windows_gnu'' ''x86_64-w64-mingw32-gcc'' environ)))"
  by (simp add: get_env_for_target_def TARGETS_def replace_def upper_def upper_char_def Let_def)

lemma get_env_arm64:
  "get_env_for_target environ ''arm64'' =
     (case map_of environ ''PATH'' of
        None \<Rightarrow> Inl (KeyError ''PATH'')
      | Some p \<Rightarrow>
          Inr (AList.update ''CARGO_TARGET_AARCH64_PC_WINDOWS_GNULLVM_RUSTFLAGS''
                 ''-C target-feature=+crt-static''
                (AList.update ''CARGO_TARGET_AARCH64_PC_WINDOWS_GNULLVM_LINKER''
                   ''aarch64-w64-mingw32-clang''
                  (AList.update ''AR_aarch64_pc_windows_gnullvm'' ''llvm-ar''
                    (AList.update ''CC_aarch64_pc_windows_gnullvm'' ''aarch64-w64-mingw32-clang''
                      (AList.update ''PATH'' (''/root/toolchains/llvm-mingw/bin:'' @ p)
                         environ))))))"
  by (simp add: get_env_for_target_def TARGETS_def replace_def upper_def upper_char_def
        path_str_def LLVM_MINGW_def Let_def split: option.splits)





text \<open>
  Claim C10. Environment derivation is partial: on a host environment without \<^verbatim>\<open>PATH\<close>
  the derivation for \<^verbatim>\<open>arm64\<close> raises \<^verbatim>\<open>KeyError('PATH')\<close> while the derivation for
  \<^verbatim>\<open>x64\<close> returns an environment; with \<^verbatim>\<open>PATH\<close> present the derivation for \<^verbatim>\<open>arm64\<close>
  returns as well.
\<close>

theorem get_env_for_target_needs_PATH:
  "(map_of environ ''PATH'' = None \<longrightarrow>
      get_env_for_target environ ''arm64'' = Inl (KeyError ''PATH'')
      \<and> (\<exists>env. get_env_for_target environ ''x64'' = Inr env))
   \<and> (map_of environ ''PATH'' \<noteq> None \<longrightarrow> (\<exists>env. get_env_for_target environ ''arm64'' = Inr env))"
  by (auto simp: get_env_x64 get_env_arm64)

theorem get_env_for_target_needs_PATH_witness:
  "map_of ([] :: env) ''PATH'' = None
   \<and> get_env_for_target [] ''arm64'' = Inl (KeyError ''PATH'')
   \<and> \<not> isl (get_env_for_target [] ''x64'')
   \<and> map_of usr_bin ''PATH'' \<noteq> None
   \<and> \<not> isl (get_env_for_target usr_bin ''arm64'')"
  using get_env_for_target_needs_PATH [of "[]"] get_env_for_target_needs_PATH [of usr_bin]
  by (auto simp: usr_bin_def)

text \<open>
  Claim C3, as stated, fails: a host environment that already binds
  \<^verbatim>\<open>CARGO_TARGET_X86_64_PC_WINDOWS_GNU_RUSTFLAGS\<close> to the static-runtime flag is copied, and
  the environment derived for \<^verbatim>\<open>x64\<close> contains that binding.
\<close>

theorem x64_env_keeps_host_rustflags:
  "get_env_for_target
     [(''CARGO_TARGET_X86_64_PC_WINDOWS_GNU_RUSTFLAGS'', ''-C target-feature=+crt-static'')]
     ''x64'' =
   Inr [(''CARGO_TARGET_X86_64_PC_WINDOWS_GNU_RUSTFLAGS'', ''-C target-feature=+crt-static''),
        (''CC_x86_64_pc_windows_gnu'', ''x86_64-w64-mingw32-gcc''),
        (''AR_x86_64_pc_windows_gnu'', ''x86_64-w64-mingw32-ar''),
        (''CARGO_TARGET_X86_64_PC_WINDOWS_GNU_LINKER'', ''x86_64-w64-mingw32-gcc'')]"
  by (simp add: get_env_x64)

text \<open>
  Claim C3, amended. Every environment derived for \<^verbatim>\<open>arm64\<close> binds
  \<^verbatim>\<open>CARGO_TARGET_AARCH64_PC_WINDOWS_GNULLVM_RUSTFLAGS\<close> to \<^verbatim>\<open>-C target-feature=+crt-static\<close>, and
  one is derived whenever the host has \<^verbatim>\<open>PATH\<close>. The derivation for \<^verbatim>\<open>x64\<close> always returns
  and never sets \<^verbatim>\<open>CARGO_TARGET_X86_64_PC_WINDOWS_GNU_RUSTFLAGS\<close>: the variable is bound in the
  derived environment exactly as it is on the host.
\<close>

theorem static_runtime_flag_binding:
  "(\<forall>env. get_env_for_target environ ''arm64'' = Inr env \<longrightarrow>
       map_of env ''CARGO_TARGET_AARCH64_PC_WINDOWS_GNULLVM_RUSTFLAGS''
         = Some ''-C target-feature=+crt-static'')
   \<and> (map_of environ ''PATH'' \<noteq> None \<longrightarrow> (\<exists>env. get_env_for_target environ ''arm64'' = Inr env))
   \<and> (\<exists>env. get_env_for_target environ ''x64'' = Inr env
          \<and> map_of env ''CARGO_TARGET_X86_64_PC_WINDOWS_GNU_RUSTFLAGS''
              = map_of environ ''CARGO_TARGET_X86_64_PC_WINDOWS_GNU_RUSTFLAGS'')"
  by (auto simp: get_env_x64 get_env_arm64 update_conv' split: option.splits)

theorem static_runtime_flag_binding_witness:
  "map_of usr_bin ''PATH'' \<noteq> None
   \<and> get_env_for_target usr_bin ''arm64'' =
       Inr [(''PATH'', ''/root/toolchains/llvm-mingw/bin:/usr/bin''),
            (''CC_aarch64_pc_windows_gnullvm'', ''aarch64-w64-mingw32-clang''),
            (''AR_aarch64_pc_windows_gnullvm'', ''llvm-ar''),
            (''CARGO_TARGET_AARCH64_PC_WINDOWS_GNULLVM_LINKER'', ''aarch64-w64-mingw32-clang''),
            (''CARGO_TARGET_AARCH64_PC_WINDOWS_GNULLVM_RUSTFLAGS'',
             ''-C target-feature=+crt-static'')]
   \<and> map_of [(''PATH'', ''/root/toolchains/llvm-mingw/bin:/usr/bin''),
            (''CC_aarch64_pc_windows_gnullvm'', ''aarch64-w64-mingw32-clang''),
            (''AR_aarch64_pc_windows_gnullvm'', ''llvm-ar''),
            (''CARGO_TARGET_AARCH64_PC_WINDOWS_GNULLVM_LINKER'', ''aarch64-w64-mingw32-clang''),
            (''CARGO_TARGET_AARCH64_PC_WINDOWS_GNULLVM_RUSTFLAGS'',
             ''-C target-feature=+crt-static'')]
        ''CARGO_TARGET_AARCH64_PC_WINDOWS_GNULLVM_RUSTFLAGS''
       = Some ''-C target-feature=+crt-static''"
proof -
  have h: "get_env_for_target usr_bin ''arm64'' =
       Inr [(''PATH'', ''/root/toolchains/llvm-mingw/bin:/usr/bin''),
            (''CC_aarch64_pc_windows_gnullvm'', ''aarch64-w64-mingw32-clang''),
            (''AR_aarch64_pc_windows_gnullvm'', ''llvm-ar''),
            (''CARGO_TARGET_AARCH64_PC_WINDOWS_GNULLVM_LINKER'', ''aarch64-w64-mingw32-clang''),
            (''CARGO_TARGET_AARCH64_PC_WINDOWS_GNULLVM_RUSTFLAGS'',
             ''-C target-feature=+crt-static'')]"
    by (simp add: get_env_arm64 usr_bin_def)
  from static_runtime_flag_binding [of usr_bin] h show ?thesis
    by (simp add: usr_bin_def)
qed

subsection \<open>Artifact paths\<close>

text \<open>
  Claim C9. For a registered target the build output is \<^verbatim>\<open>TARGET_DIR\<close> joined with the
  triple, \<^verbatim>\<open>release\<close> and \<^verbatim>\<open>htop-win.exe\<close>; the staged path is \<^verbatim>\<open>OUTPUT_DIR\<close> joined with
  \<^verbatim>\<open>htop-win-<name>.exe\<close>; and two distinct registered targets have distinct staged paths.
\<close>

theorem output_paths:
  assumes "map_of TARGETS n = Some t"
  shows "get_build_output_path w n = Inr (TARGET_DIR w @ [triple t, ''release'', ''htop-win.exe''])
       \<and> get_final_output_path n = OUTPUT_DIR @ [''htop-win-'' @ n @ ''.exe'']
       \<and> path_str (get_final_output_path n) = ''/mnt/c/code/htop-win-'' @ n @ ''.exe''
       \<and> (\<forall>m. registered m \<and> m \<noteq> n \<longrightarrow> get_final_output_path m \<noteq> get_final_output_path n)"
  using assms
  by (simp add: get_build_output_path_def get_final_output_path_def OUTPUT_DIR_def path_str_def)

theorem output_paths_witness:
  "map_of TARGETS ''x64'' =
     Some \<lparr>triple = ''x86_64-pc-windows-gnu'', cc = ''x86_64-w64-mingw32-gcc'',
           ar = ''x86_64-w64-mingw32-ar'', linker = ''x86_64-w64-mingw32-gcc'',
           use_llvm_mingw = False\<rparr>
   \<and> get_build_output_path (host usr_bin all_succeed True) ''x64'' =
       Inr [''src'', ''htop-win'', ''target'', ''x86_64-pc-windows-gnu'', ''release'',
            ''htop-win.exe'']
   \<and> get_final_output_path ''x64'' = [''mnt'', ''c'', ''code'', ''htop-win-x64.exe'']
   \<and> registered ''arm64''
   \<and> get_final_output_path ''arm64'' \<noteq> get_final_output_path ''x64''"
proof -
  have h: "map_of TARGETS ''x64'' =
     Some \<lparr>triple = ''x86_64-pc-windows-gnu'', cc = ''x86_64-w64-mingw32-gcc'',
           ar = ''x86_64-w64-mingw32-ar'', linker = ''x86_64-w64-mingw32-gcc'',
           use_llvm_mingw = False\<rparr>"
    by (simp add: TARGETS_def)
  have r: "registered ''arm64''"
    by (simp add: registered_iff)
  from output_paths [OF h, of "host usr_bin all_succeed True"] h r show ?thesis
    by (simp add: TARGET_DIR_def host_def OUTPUT_DIR_def get_final_output_path_def)
qed

subsection \<open>The command runner\<close>

lemma run_command_result:
  "fst (run_command w cmd env cwd st) =
     (case fst (subprocess_run w cmd (chosen_env w env) (chosen_cwd w cwd) (files st)) of
        SpawnFailed \<Rightarrow> Inl OSError
      | Exited c \<Rightarrow> Inr (c = 0))"
  by (simp add: run_command_def chosen_env_def chosen_cwd_def Let_def print_lines_def
        split: prod.splits proc_result.splits)

lemma run_command_calls:
  "calls (snd (run_command w cmd env cwd st)) =
     calls st @ [(cmd, chosen_env w env, chosen_cwd w cwd)]"
  by (simp add: run_command_def chosen_env_def chosen_cwd_def Let_def print_lines_def
        split: prod.splits proc_result.splits)


lemma run_command_files:
  "files (snd (run_command w cmd env cwd st)) =
     (case subprocess_run w cmd (chosen_env w env) (chosen_cwd w cwd) (files st) of
        (SpawnFailed, fs) \<Rightarrow> files st
      | (Exited c, fs) \<Rightarrow> fs)"
  by (simp add: run_command_def chosen_env_def chosen_cwd_def Let_def print_lines_def
        split: prod.splits proc_result.splits)

lemma run_command_out:
  "out (snd (run_command w cmd env cwd st)) =
     out st @ ['''', ''>>> Running: '' @ join '' '' cmd] @
     (case fst (subprocess_run w cmd (chosen_env w env) (chosen_cwd w cwd) (files st)) of
        SpawnFailed \<Rightarrow> []
      | Exited c \<Rightarrow> if c = 0 then [] else [''Error: Command failed with exit code '' @ str_int c])"
  by (simp add: run_command_def chosen_env_def chosen_cwd_def Let_def print_lines_def
        split: prod.splits proc_result.splits)


lemmas run_defs =
  main_def main_check_def main_build_def main_build_all_def check_prerequisites_def
  ensure_targets_def run_command_def build_target_def check_target_def copy_to_output_def
  get_build_output_path_def get_final_output_path_def get_env_for_target_def TARGETS_def
  TARGET_DIR_def OUTPUT_DIR_def LLVM_MINGW_def path_str_def print_lines_def build_cmd_def
  check_cmd_def install_cmd_def replace_def upper_def upper_char_def str_int_def
  str_nat.simps digit_char_def Let_def host_def fake_run_def state0_def st_bare_def usr_bin_def
  commands_def envs_def jobs_hints_def exit_status_def build_all_def build_x64_def
  check_x64_def no_cargo_def no_gcc_def all_succeed_def x64_build_fails_def
  arm64_install_fails_def no_rustup_def after_prereq_def after_ensure_def x64_exe_def
  arm64_exe_def x64_install_fails_def locked_x64_def num_jobs_of_def build_x64_j4_def

text \<open>
  Claim C4. \<^verbatim>\<open>run_command\<close> returns \<^verbatim>\<open>True\<close> for exit status zero and \<^verbatim>\<open>False\<close>, after a
  diagnostic, for any other exit status (\<open>run_command_result\<close>, \<open>run_command_out\<close>). A
  process that cannot be started is not reported as \<^verbatim>\<open>False\<close>: on a host without
  \<^verbatim>\<open>rustup\<close> the \<^verbatim>\<open>OSError\<close> leaves \<^verbatim>\<open>run_command\<close>, and with it \<^verbatim>\<open>main\<close>.
\<close>

theorem run_command_spawn_failure_raises:
  "fst (run_command (host usr_bin no_rustup True) (install_cmd ''x86_64-pc-windows-gnu'')
          None None state0) = Inl OSError
   \<and> fst (main (host usr_bin no_rustup True) build_x64 state0) = Inl OSError"
  by (simp add: run_defs)

subsection \<open>Prerequisites\<close>

lemma check_prerequisites_fst:
  "fst (check_prerequisites w st) =
     (shutil_which w ''cargo'' \<and> shutil_which w ''x86_64-w64-mingw32-gcc''
      \<and> LLVM_MINGW @ [''aarch64-w64-mingw32-clang''] \<in> files st)"
  by (simp add: check_prerequisites_def Let_def print_lines_def)

lemma check_prerequisites_frame:
  "calls (snd (check_prerequisites w st)) = calls st"
  "files (snd (check_prerequisites w st)) = files st"
  "copied (snd (check_prerequisites w st)) = copied st"
  by (simp_all add: check_prerequisites_def Let_def print_lines_def)

lemma main_prerequisites_fail:
  assumes "\<not> fst (check_prerequisites w st)"
  shows "main w a st = (Inr 1, snd (check_prerequisites w st))"
  using assms by (cases "check_prerequisites w st") (simp add: main_def)

text \<open>
  Claim C5. \<^verbatim>\<open>check_prerequisites\<close> succeeds exactly when \<^verbatim>\<open>cargo\<close> and the x64 compiler are
  on the search path and the ARM64 compiler exists under llvm-mingw. The checks are made
  in that order and stop at the first failure: without \<^verbatim>\<open>cargo\<close> only its diagnostic is
  printed, whatever the other tools; the x64 diagnostic needs \<^verbatim>\<open>cargo\<close> present; the
  llvm-mingw diagnostic needs both. When the check fails, \<^verbatim>\<open>main\<close> exits with status 1 for
  every action, and no process has been started, no file changed and nothing copied.
\<close>

theorem check_prerequisites_order:
  "fst (check_prerequisites w st) =
     (shutil_which w ''cargo'' \<and> shutil_which w ''x86_64-w64-mingw32-gcc''
      \<and> LLVM_MINGW @ [''aarch64-w64-mingw32-clang''] \<in> files st)
   \<and> (\<not> shutil_which w ''cargo'' \<longrightarrow>
        out (snd (check_prerequisites w st)) =
          out st @ [''Checking prerequisites...'', ''Error: cargo not found''])
   \<and> (shutil_which w ''cargo'' \<and> \<not> shutil_which w ''x86_64-w64-mingw32-gcc'' \<longrightarrow>
        out (snd (check_prerequisites w st)) =
          out st @ [''Checking prerequisites...'', ''Error: x86_64-w64-mingw32-gcc not found'',
                    ''Install with: apt install gcc-mingw-w64-x86-64''])
   \<and> (shutil_which w ''cargo'' \<and> shutil_which w ''x86_64-w64-mingw32-gcc''
        \<and> LLVM_MINGW @ [''aarch64-w64-mingw32-clang''] \<notin> files st \<longrightarrow>
        out (snd (check_prerequisites w st)) =
          out st @ [''Checking prerequisites...'',
                    ''Error: llvm-mingw not found at /root/toolchains/llvm-mingw/bin'',
                    ''ARM64 builds will not be available''])
   \<and> (\<not> fst (check_prerequisites w st) \<longrightarrow>
        fst (main w a st) = Inr 1 \<and> exit_status (fst (main w a st)) = 1
        \<and> calls (snd (main w a st)) = calls st
        \<and> files (snd (main w a st)) = files st
        \<and> copied (snd (main w a st)) = copied st)"
proof -
  have "\<not> fst (check_prerequisites w st) \<longrightarrow>
        fst (main w a st) = Inr 1 \<and> exit_status (fst (main w a st)) = 1
        \<and> calls (snd (main w a st)) = calls st
        \<and> files (snd (main w a st)) = files st
        \<and> copied (snd (main w a st)) = copied st"
    by (simp add: main_prerequisites_fail check_prerequisites_frame exit_status_def)
  moreover have "\<not> shutil_which w ''cargo'' \<longrightarrow>
        out (snd (check_prerequisites w st)) =
          out st @ [''Checking prerequisites...'', ''Error: cargo not found'']"
    by (simp add: check_prerequisites_def Let_def print_lines_def)
  moreover have "shutil_which w ''cargo'' \<and> \<not> shutil_which w ''x86_64-w64-mingw32-gcc'' \<longrightarrow>
        out (snd (check_prerequisites w st)) =
          out st @ [''Checking prerequisites...'', ''Error: x86_64-w64-mingw32-gcc not found'',
                    ''Install with: apt install gcc-mingw-w64-x86-64'']"
    by (simp add: check_prerequisites_def Let_def print_lines_def)
  moreover have "shutil_which w ''cargo'' \<and> shutil_which w ''x86_64-w64-mingw32-gcc''
        \<and> LLVM_MINGW @ [''aarch64-w64-mingw32-clang''] \<notin> files st \<longrightarrow>
        out (snd (check_prerequisites w st)) =
          out st @ [''Checking prerequisites...'',
                    ''Error: llvm-mingw not found at /root/toolchains/llvm-mingw/bin'',
                    ''ARM64 builds will not be available'']"
    by (simp add: check_prerequisites_def Let_def print_lines_def path_str_def LLVM_MINGW_def)
  ultimately show ?thesis
    using check_prerequisites_fst [of w st] by blast
qed

theorem check_prerequisites_order_witness:
  "\<not> shutil_which no_cargo ''cargo'' \<and> shutil_which no_cargo ''x86_64-w64-mingw32-gcc''
   \<and> LLVM_MINGW @ [''aarch64-w64-mingw32-clang''] \<in> files state0
   \<and> \<not> fst (check_prerequisites no_cargo state0)
   \<and> out (snd (check_prerequisites no_cargo state0)) =
       [''Checking prerequisites...'', ''Error: cargo not found'']
   \<and> fst (main no_cargo build_all state0) = Inr 1
   \<and> calls (snd (main no_cargo build_all state0)) = []
   \<and> shutil_which no_gcc ''cargo'' \<and> \<not> shutil_which no_gcc ''x86_64-w64-mingw32-gcc''
   \<and> out (snd (check_prerequisites no_gcc state0)) =
       [''Checking prerequisites...'', ''Error: x86_64-w64-mingw32-gcc not found'',
        ''Install with: apt install gcc-mingw-w64-x86-64'']
   \<and> shutil_which (host usr_bin all_succeed True) ''cargo''
   \<and> shutil_which (host usr_bin all_succeed True) ''x86_64-w64-mingw32-gcc''
   \<and> LLVM_MINGW @ [''aarch64-w64-mingw32-clang''] \<notin> files st_bare
   \<and> out (snd (check_prerequisites (host usr_bin all_succeed True) st_bare)) =
       [''Checking prerequisites...'',
        ''Error: llvm-mingw not found at /root/toolchains/llvm-mingw/bin'',
        ''ARM64 builds will not be available'']"
proof -
  have a: "\<not> shutil_which no_cargo ''cargo''" "shutil_which no_cargo ''x86_64-w64-mingw32-gcc''"
    "LLVM_MINGW @ [''aarch64-w64-mingw32-clang''] \<in> files state0" "calls state0 = []" "out state0 = []"
    by (simp_all add: no_cargo_def host_def state0_def)
  have b: "shutil_which no_gcc ''cargo''" "\<not> shutil_which no_gcc ''x86_64-w64-mingw32-gcc''"
    by (simp_all add: no_gcc_def host_def)
  have c: "shutil_which (host usr_bin all_succeed True) ''cargo''"
    "shutil_which (host usr_bin all_succeed True) ''x86_64-w64-mingw32-gcc''"
    "LLVM_MINGW @ [''aarch64-w64-mingw32-clang''] \<notin> files st_bare" "out st_bare = []"
    by (simp_all add: host_def st_bare_def)
  show ?thesis
    using check_prerequisites_order [of no_cargo state0 build_all]
      check_prerequisites_order [of no_gcc state0 build_all]
      check_prerequisites_order [of "host usr_bin all_succeed True" st_bare build_all]
      a b c
    by simp
qed


subsection \<open>Building and checking one target\<close>

lemma update_nonempty: "AList.update k v al \<noteq> []"
  by (cases al) auto

lemma get_env_nonempty:
  assumes "get_env_for_target environ n = Inr env"
  shows "env \<noteq> []"
  using assms
  by (auto simp: get_env_for_target_def Let_def update_nonempty
      split: option.splits if_splits sum.splits)

lemma get_env_jobs_key:
  assumes "get_env_for_target environ n = Inr env"
  shows "map_of env ''CARGO_BUILD_JOBS'' = map_of environ ''CARGO_BUILD_JOBS''"
proof (cases "map_of TARGETS n")
  case None
  with assms show ?thesis by (simp add: get_env_for_target_def)
next
  case (Some t)
  from map_of_TARGETS_cases [OF Some] assms show ?thesis
    by (auto simp: get_env_x64 get_env_arm64 update_conv' split: option.splits)
qed

lemma commands_run_command:
  "commands (snd (run_command w cmd env cwd st)) = commands st @ [cmd]"
  by (simp add: commands_def run_command_calls)

lemma build_target_calls:
  assumes "map_of TARGETS n = Some t" and "get_env_for_target (os_environ w) n = Inr env"
  shows "calls (snd (build_target w n jobs st)) =
           calls st @ [(build_cmd (triple t) (case jobs of Some j \<Rightarrow> j | None \<Rightarrow> CPU_COUNT w),
                        AList.update ''CARGO_BUILD_JOBS''
                          (str_int (case jobs of Some j \<Rightarrow> j | None \<Rightarrow> CPU_COUNT w)) env,
                        PROJECT_DIR w)]"
  using assms
  by (simp add: build_target_def Let_def run_command_calls chosen_env_def chosen_cwd_def
        update_nonempty)

lemma check_target_calls:
  assumes "map_of TARGETS n = Some t" and "get_env_for_target (os_environ w) n = Inr env"
  shows "calls (snd (check_target w n st)) = calls st @ [(check_cmd (triple t), env, PROJECT_DIR w)]"
  using assms get_env_nonempty [OF assms(2)]
  by (simp add: check_target_def run_command_calls chosen_env_def chosen_cwd_def)

subsection \<open>Which processes a run starts\<close>

lemma ensure_targets_loop_all:
  "fst (ensure_targets_loop w ts st) = Inr True \<Longrightarrow>
     commands (snd (ensure_targets_loop w ts st)) =
       commands st @ map (\<lambda>(n, t). install_cmd (triple t)) ts"
proof (induction ts arbitrary: st)
  case Nil
  then show ?case by simp
next
  case (Cons p ts)
  obtain n t where p: "p = (n, t)" by (cases p)
  obtain r st1 where r: "run_command w [''rustup'', ''target'', ''add'', triple t] None None st = (r, st1)"
    by (cases "run_command w [''rustup'', ''target'', ''add'', triple t] None None st")
  have c: "commands st1 = commands st @ [install_cmd (triple t)]"
    using commands_run_command [of w "[''rustup'', ''target'', ''add'', triple t]" None None st] r
    by (simp add: install_cmd_def)
  from Cons.prems p r have ok: "r = Inr True"
    and rest: "fst (ensure_targets_loop w ts st1) = Inr True"
    by (auto split: sum.splits if_splits)
  from Cons.IH [OF rest] c p r ok show ?case by simp
qed

lemma ensure_targets_loop_prefix:
  "\<exists>k. commands (snd (ensure_targets_loop w ts st)) =
         commands st @ map (\<lambda>(n, t). install_cmd (triple t)) (take k ts)"
proof (induction ts arbitrary: st)
  case Nil
  then show ?case by simp
next
  case (Cons p ts)
  obtain n t where p: "p = (n, t)" by (cases p)
  obtain r st1 where r: "run_command w [''rustup'', ''target'', ''add'', triple t] None None st = (r, st1)"
    by (cases "run_command w [''rustup'', ''target'', ''add'', triple t] None None st")
  have c: "commands st1 = commands st @ [install_cmd (triple t)]"
    using commands_run_command [of w "[''rustup'', ''target'', ''add'', triple t]" None None st] r
    by (simp add: install_cmd_def)
  show ?case
  proof (cases "r = Inr True")
    case True
    from Cons.IH [of st1] obtain k where
      "commands (snd (ensure_targets_loop w ts st1)) =
         commands st1 @ map (\<lambda>(n, t). install_cmd (triple t)) (take k ts)" ..
    with c p r True have
      "commands (snd (ensure_targets_loop w (p # ts) st)) =
         commands st @ map (\<lambda>(n, t). install_cmd (triple t)) (take (Suc k) (p # ts))"
      by simp
    then show ?thesis ..
  next
    case False
    with c p r have
      "commands (snd (ensure_targets_loop w (p # ts) st)) =
         commands st @ map (\<lambda>(n, t). install_cmd (triple t)) (take (Suc 0) (p # ts))"
      by (auto simp: commands_def print_lines_def split: sum.splits)
    then show ?thesis ..
  qed
qed

lemma commands_print_lines [simp]: "commands (print_lines ls st) = commands st"
  by (simp add: commands_def print_lines_def)

lemma ensure_targets_all:
  "fst (ensure_targets w st) = Inr True \<Longrightarrow>
     commands (snd (ensure_targets w st)) =
       commands st @ map (\<lambda>(n, t). install_cmd (triple t)) TARGETS"
  using ensure_targets_loop_all
          [of w TARGETS "print_lines ['''', ''Ensuring Rust targets are installed...''] st"]
  by (simp add: ensure_targets_def)

lemma ensure_targets_prefix:
  "\<exists>k. commands (snd (ensure_targets w st)) =
         commands st @ map (\<lambda>(n, t). install_cmd (triple t)) (take k TARGETS)"
  using ensure_targets_loop_prefix
          [of w TARGETS "print_lines ['''', ''Ensuring Rust targets are installed...''] st"]
  by (simp add: ensure_targets_def)

lemma build_target_commands:
  "\<exists>cs. commands (snd (build_target w n jobs st)) = commands st @ cs
        \<and> (\<forall>c\<in>set cs. take 1 c = [''cargo''])"
  by (auto simp: build_target_def Let_def commands_run_command build_cmd_def
      split: option.splits sum.splits)

lemma check_target_commands:
  "\<exists>cs. commands (snd (check_target w n st)) = commands st @ cs
        \<and> (\<forall>c\<in>set cs. take 1 c = [''cargo''])"
  by (auto simp: check_target_def commands_run_command check_cmd_def
      split: option.splits sum.splits)

lemma copy_to_output_calls: "calls (snd (copy_to_output w n st)) = calls st"
  by (simp add: copy_to_output_def Let_def print_lines_def split: sum.splits)

lemma copy_to_output_commands: "commands (snd (copy_to_output w n st)) = commands st"
  by (simp add: commands_def copy_to_output_calls)

lemma build_all_loop_commands:
  "\<exists>cs. commands (snd (build_all_loop w jobs ns results st)) = commands st @ cs
        \<and> (\<forall>c\<in>set cs. take 1 c = [''cargo''])"
proof (induction ns arbitrary: results st)
  case Nil
  then show ?case by simp
next
  case (Cons n ns)
  obtain r st1 where r: "build_target w n jobs st = (r, st1)"
    by (cases "build_target w n jobs st")
  from build_target_commands [of w n jobs st] r obtain cs where
    cs: "commands st1 = commands st @ cs" "\<forall>c\<in>set cs. take 1 c = [''cargo'']"
    by auto
  show ?case
  proof (cases r)
    case (Inl e)
    with r cs show ?thesis by auto
  next
    case (Inr ok)
    from Cons.IH [of "results @ [(n, ok)]" st1] obtain ds where
      ds: "commands (snd (build_all_loop w jobs ns (results @ [(n, ok)]) st1)) = commands st1 @ ds"
        "\<forall>c\<in>set ds. take 1 c = [''cargo'']"
      by auto
    with r cs Inr have
      "commands (snd (build_all_loop w jobs (n # ns) results st)) = commands st @ (cs @ ds)
       \<and> (\<forall>c\<in>set (cs @ ds). take 1 c = [''cargo''])"
      by auto
    then show ?thesis by blast
  qed
qed

lemma summary_loop_commands:
  "commands (snd (summary_loop w rs a st)) = commands st"
proof (induction w rs a st rule: summary_loop.induct)
  case (1 w all_success st)
  then show ?case by simp
next
  case (2 w target_name success rs all_success st)
  obtain r st1 where r: "copy_to_output w target_name st = (r, st1)"
    by (cases "copy_to_output w target_name st")
  with copy_to_output_commands [of w target_name st] have c: "commands st1 = commands st"
    by simp
  show ?case
  proof (cases success)
    case False
    with 2 show ?thesis by simp
  next
    case True
    show ?thesis
    proof (cases r)
      case (Inl e)
      with True r c show ?thesis by simp
    next
      case (Inr po)
      with True r c 2 show ?thesis by (cases po) auto
    qed
  qed
qed


lemma main_after_prerequisites:
  assumes "check_prerequisites w st0 = (True, st)"
  shows "main w a st0 =
           (case args_action a of
              Check \<Rightarrow> main_check w a st
            | Build \<Rightarrow> main_build w a st
            | BuildAll \<Rightarrow> main_build_all w a st)"
  using assms by (simp add: main_def)

lemma ensure_fails_aborts:
  assumes "fst (ensure_targets w st) \<noteq> Inr True"
  shows "snd (main_check w a st) = snd (ensure_targets w st)
       \<and> exit_status (fst (main_check w a st)) = 1
       \<and> snd (main_build w a st) = snd (ensure_targets w st)
       \<and> exit_status (fst (main_build w a st)) = 1
       \<and> snd (main_build_all w a st) = snd (ensure_targets w st)
       \<and> exit_status (fst (main_build_all w a st)) = 1"
proof -
  obtain r st1 where r: "ensure_targets w st = (r, st1)"
    by (cases "ensure_targets w st")
  with assms have "r \<noteq> Inr True" by simp
  with r show ?thesis
    by (cases r) (auto simp: main_check_def main_build_def main_build_all_def exit_status_def)
qed

lemma main_check_commands:
  assumes "fst (ensure_targets w st) = Inr True"
  shows "\<exists>cs. commands (snd (main_check w a st)) = commands (snd (ensure_targets w st)) @ cs
             \<and> (\<forall>c\<in>set cs. take 1 c = [''cargo''])"
proof -
  obtain st1 where r: "ensure_targets w st = (Inr True, st1)"
    using assms by (cases "ensure_targets w st") simp
  obtain q st2 where q: "check_target w (args_target a) st1 = (q, st2)"
    by (cases "check_target w (args_target a) st1")
  from check_target_commands [of w "args_target a" st1] q obtain cs where
    cs: "commands st2 = commands st1 @ cs" "\<forall>c\<in>set cs. take 1 c = [''cargo'']"
    by auto
  from r q cs have "commands (snd (main_check w a st)) = commands (snd (ensure_targets w st)) @ cs"
    by (cases q) (auto simp: main_check_def)
  with cs show ?thesis by blast
qed

lemma main_build_commands:
  assumes "fst (ensure_targets w st) = Inr True"
  shows "\<exists>cs. commands (snd (main_build w a st)) = commands (snd (ensure_targets w st)) @ cs
             \<and> (\<forall>c\<in>set cs. take 1 c = [''cargo''])"
proof -
  obtain st1 where r: "ensure_targets w st = (Inr True, st1)"
    using assms by (cases "ensure_targets w st") simp
  obtain q st2 where q: "build_target w (args_target a) (args_jobs a) st1 = (q, st2)"
    by (cases "build_target w (args_target a) (args_jobs a) st1")
  from build_target_commands [of w "args_target a" "args_jobs a" st1] q obtain cs where
    cs: "commands st2 = commands st1 @ cs" "\<forall>c\<in>set cs. take 1 c = [''cargo'']"
    by auto
  obtain p st3 where p: "copy_to_output w (args_target a) st2 = (p, st3)"
    by (cases "copy_to_output w (args_target a) st2")
  with copy_to_output_commands [of w "args_target a" st2] have c3: "commands st3 = commands st2"
    by simp
  from r q p cs c3 have
    "commands (snd (main_build w a st)) = commands (snd (ensure_targets w st)) @ cs"
    by (auto simp: main_build_def split: sum.splits option.splits)
  with cs show ?thesis by blast
qed

lemma main_build_all_commands:
  assumes "fst (ensure_targets w st) = Inr True"
  shows "\<exists>cs. commands (snd (main_build_all w a st)) = commands (snd (ensure_targets w st)) @ cs
             \<and> (\<forall>c\<in>set cs. take 1 c = [''cargo''])"
proof -
  obtain st1 where r: "ensure_targets w st = (Inr True, st1)"
    using assms by (cases "ensure_targets w st") simp
  obtain q st2 where q: "build_all_loop w (args_jobs a) (map fst TARGETS) [] st1 = (q, st2)"
    by (cases "build_all_loop w (args_jobs a) (map fst TARGETS) [] st1")
  from build_all_loop_commands [of w "args_jobs a" "map fst TARGETS" "[]" st1] q obtain cs where
    cs: "commands st2 = commands st1 @ cs" "\<forall>c\<in>set cs. take 1 c = [''cargo'']"
    by auto
  have "commands (snd (main_build_all w a st)) = commands (snd (ensure_targets w st)) @ cs"
  proof (cases q)
    case (Inl e)
    with r q cs show ?thesis by (simp add: main_build_all_def)
  next
    case (Inr results)
    obtain p st3 where p: "summary_loop w results True st2 = (p, st3)"
      by (cases "summary_loop w results True st2")
    with summary_loop_commands [of w results True st2] have "commands st3 = commands st2"
      by simp
    with r q cs Inr p show ?thesis
      by (auto simp: main_build_all_def split: sum.splits)
  qed
  with cs show ?thesis by blast
qed

lemma ensure_targets_unfold:
  "ensure_targets w st =
     (case run_command w (install_cmd ''x86_64-pc-windows-gnu'') None None
             (print_lines ['''', ''Ensuring Rust targets are installed...''] st) of
        (Inl e, s1) \<Rightarrow> (Inl e, s1)
      | (Inr ok, s1) \<Rightarrow>
          (if \<not> ok
           then (Inr False, print_lines [''Failed to add target x86_64-pc-windows-gnu''] s1)
           else (case run_command w (install_cmd ''aarch64-pc-windows-gnullvm'') None None s1 of
                   (Inl e, s2) \<Rightarrow> (Inl e, s2)
                 | (Inr ok', s2) \<Rightarrow>
                     (if \<not> ok'
                      then (Inr False,
                            print_lines [''Failed to add target aarch64-pc-windows-gnullvm''] s2)
                      else (Inr True, s2)))))"
  by (simp add: ensure_targets_def TARGETS_def install_cmd_def
        split: prod.splits sum.splits cong: if_cong)

lemma ensure_targets_first_fails:
  assumes "run_command w (install_cmd ''x86_64-pc-windows-gnu'') None None
             (print_lines ['''', ''Ensuring Rust targets are installed...''] st) = (r1, s1)"
    and "r1 \<noteq> Inr True"
  shows "fst (ensure_targets w st) \<noteq> Inr True"
    and "commands (snd (ensure_targets w st)) = commands st @ [install_cmd ''x86_64-pc-windows-gnu'']"
proof -
  have c: "commands s1 = commands st @ [install_cmd ''x86_64-pc-windows-gnu'']"
    using commands_run_command [of w "install_cmd ''x86_64-pc-windows-gnu''" None None
        "print_lines ['''', ''Ensuring Rust targets are installed...''] st"] assms(1)
    by simp
  from assms show "fst (ensure_targets w st) \<noteq> Inr True"
    by (cases r1) (auto simp: ensure_targets_unfold)
  from assms c show "commands (snd (ensure_targets w st)) =
      commands st @ [install_cmd ''x86_64-pc-windows-gnu'']"
    by (cases r1) (auto simp: ensure_targets_unfold)
qed

lemma ensure_targets_second:
  assumes "run_command w (install_cmd ''x86_64-pc-windows-gnu'') None None
             (print_lines ['''', ''Ensuring Rust targets are installed...''] st) = (Inr True, s1)"
    and "run_command w (install_cmd ''aarch64-pc-windows-gnullvm'') None None s1 = (r2, s2)"
  shows "fst (ensure_targets w st) = Inr True \<longleftrightarrow> r2 = Inr True"
    and "commands (snd (ensure_targets w st)) =
           commands st @ [install_cmd ''x86_64-pc-windows-gnu'',
                          install_cmd ''aarch64-pc-windows-gnullvm'']"
proof -
  have c1: "commands s1 = commands st @ [install_cmd ''x86_64-pc-windows-gnu'']"
    using commands_run_command [of w "install_cmd ''x86_64-pc-windows-gnu''" None None
        "print_lines ['''', ''Ensuring Rust targets are installed...''] st"] assms(1)
    by simp
  have c2: "commands s2 = commands s1 @ [install_cmd ''aarch64-pc-windows-gnullvm'']"
    using commands_run_command [of w "install_cmd ''aarch64-pc-windows-gnullvm''" None None s1]
      assms(2)
    by simp
  from assms show "fst (ensure_targets w st) = Inr True \<longleftrightarrow> r2 = Inr True"
    by (cases r2) (auto simp: ensure_targets_unfold)
  from assms c1 c2 show "commands (snd (ensure_targets w st)) =
           commands st @ [install_cmd ''x86_64-pc-windows-gnu'',
                          install_cmd ''aarch64-pc-windows-gnullvm'']"
    by (cases r2) (auto simp: ensure_targets_unfold)
qed

lemma main_ensure_fails:
  assumes "check_prerequisites w st0 = (True, st1)" and "fst (ensure_targets w st1) \<noteq> Inr True"
  shows "snd (main w a st0) = snd (ensure_targets w st1)"
    and "exit_status (fst (main w a st0)) = 1"
  using ensure_fails_aborts [OF assms(2), of a]
  by (cases "args_action a"; simp add: main_after_prerequisites [OF assms(1)])+

lemma main_ensure_succeeds:
  assumes "check_prerequisites w st0 = (True, st1)" and "fst (ensure_targets w st1) = Inr True"
  shows "\<exists>cs. commands (snd (main w a st0)) = commands (snd (ensure_targets w st1)) @ cs
             \<and> (\<forall>c\<in>set cs. take 1 c = [''cargo''])"
  using main_check_commands [OF assms(2), of a] main_build_commands [OF assms(2), of a]
    main_build_all_commands [OF assms(2), of a]
  by (cases "args_action a") (simp_all add: main_after_prerequisites [OF assms(1)])

text \<open>
  Claim C8, as stated, fails: \<^verbatim>\<open>ensure_targets\<close> has no parameter and loops over the whole
  registry, so a \<^verbatim>\<open>build --target x64\<close> run also installs the ARM64 toolchain target.
\<close>

theorem single_target_run_installs_both:
  "commands (snd (main (host usr_bin all_succeed True) build_x64 state0)) =
     [[''rustup'', ''target'', ''add'', ''x86_64-pc-windows-gnu''],
      [''rustup'', ''target'', ''add'', ''aarch64-pc-windows-gnullvm''],
      [''cargo'', ''build'', ''--release'', ''--target'', ''x86_64-pc-windows-gnu'', ''-j'', ''8'']]"
  by (simp add: run_defs)

text \<open>
  Claim C8, amended. For every action and every selected target, a run that passes the
  prerequisite check asks \<^verbatim>\<open>rustup\<close> to add the triple of every registered target, in
  registry order, and stops at the first installation that does not return success. If
  the first installation fails, the run ends with exit status 1 having started only that
  one process; if the first succeeds and the second fails, the run ends with exit status
  1 having started only the two installations. No \<^verbatim>\<open>cargo\<close> command is started in either
  case. Only when both installations return success does the run go on, and then its
  commands are the two installations followed by \<^verbatim>\<open>cargo\<close> commands only.
\<close>

theorem ensure_targets_installs_all:
  assumes "check_prerequisites w st0 = (True, st1)"
    and "run_command w (install_cmd ''x86_64-pc-windows-gnu'') None None
           (print_lines ['''', ''Ensuring Rust targets are installed...''] st1) = (r1, s1)"
    and "run_command w (install_cmd ''aarch64-pc-windows-gnullvm'') None None s1 = (r2, s2)"
  shows "map (\<lambda>(n, t). install_cmd (triple t)) TARGETS =
           [install_cmd ''x86_64-pc-windows-gnu'', install_cmd ''aarch64-pc-windows-gnullvm'']
       \<and> (r1 \<noteq> Inr True \<longrightarrow>
            exit_status (fst (main w a st0)) = 1
            \<and> commands (snd (main w a st0)) =
                commands st0 @ [install_cmd ''x86_64-pc-windows-gnu''])
       \<and> (r1 = Inr True \<and> r2 \<noteq> Inr True \<longrightarrow>
            exit_status (fst (main w a st0)) = 1
            \<and> commands (snd (main w a st0)) =
                commands st0 @ [install_cmd ''x86_64-pc-windows-gnu'',
                                install_cmd ''aarch64-pc-windows-gnullvm''])
       \<and> (r1 = Inr True \<and> r2 = Inr True \<longrightarrow>
            fst (ensure_targets w st1) = Inr True
            \<and> (\<exists>cs. commands (snd (main w a st0)) =
                       commands st0 @ [install_cmd ''x86_64-pc-windows-gnu'',
                                       install_cmd ''aarch64-pc-windows-gnullvm''] @ cs
                    \<and> (\<forall>c\<in>set cs. take 1 c = [''cargo''])))"
proof -
  have st: "commands st1 = commands st0"
    using assms(1) check_prerequisites_frame(1) [of w st0] by (simp add: commands_def)
  have 0: "map (\<lambda>(n, t). install_cmd (triple t)) TARGETS =
           [install_cmd ''x86_64-pc-windows-gnu'', install_cmd ''aarch64-pc-windows-gnullvm'']"
    by (simp add: TARGETS_def)
  have 1: "exit_status (fst (main w a st0)) = 1
            \<and> commands (snd (main w a st0)) =
                commands st0 @ [install_cmd ''x86_64-pc-windows-gnu'']"
    if r: "r1 \<noteq> Inr True"
    using ensure_targets_first_fails [OF assms(2) r]
      main_ensure_fails [OF assms(1), of a] st
    by simp
  have 2: "exit_status (fst (main w a st0)) = 1
            \<and> commands (snd (main w a st0)) =
                commands st0 @ [install_cmd ''x86_64-pc-windows-gnu'',
                                install_cmd ''aarch64-pc-windows-gnullvm'']"
    if r: "r1 = Inr True" "r2 \<noteq> Inr True"
    using ensure_targets_second [OF assms(2) [unfolded r(1)] assms(3)] r(2)
      main_ensure_fails [OF assms(1), of a] st
    by simp
  have 3: "fst (ensure_targets w st1) = Inr True
            \<and> (\<exists>cs. commands (snd (main w a st0)) =
                       commands st0 @ [install_cmd ''x86_64-pc-windows-gnu'',
                                       install_cmd ''aarch64-pc-windows-gnullvm''] @ cs
                    \<and> (\<forall>c\<in>set cs. take 1 c = [''cargo'']))"
    if r: "r1 = Inr True" "r2 = Inr True"
  proof -
    from ensure_targets_second [OF assms(2) [unfolded r(1)] assms(3)] r(2)
    have e: "fst (ensure_targets w st1) = Inr True"
      and c: "commands (snd (ensure_targets w st1)) =
           commands st1 @ [install_cmd ''x86_64-pc-windows-gnu'',
                          install_cmd ''aarch64-pc-windows-gnullvm'']"
      by simp_all
    from main_ensure_succeeds [OF assms(1) e, of a] c st e show ?thesis
      by simp
  qed
  from 0 1 2 3 show ?thesis by blast
qed

theorem ensure_targets_installs_all_witness:
  "check_prerequisites (host usr_bin x64_install_fails True) state0 =
     (True, after_prereq (host usr_bin x64_install_fails True) state0)
   \<and> fst (run_command (host usr_bin x64_install_fails True)
            (install_cmd ''x86_64-pc-windows-gnu'') None None
            (print_lines ['''', ''Ensuring Rust targets are installed...'']
               (after_prereq (host usr_bin x64_install_fails True) state0))) = Inr False
   \<and> exit_status (fst (main (host usr_bin x64_install_fails True) build_all state0)) = 1
   \<and> commands (snd (main (host usr_bin x64_install_fails True) build_all state0)) =
       [[''rustup'', ''target'', ''add'', ''x86_64-pc-windows-gnu'']]
   \<and> check_prerequisites (host usr_bin arm64_install_fails True) state0 =
     (True, after_prereq (host usr_bin arm64_install_fails True) state0)
   \<and> fst (run_command (host usr_bin arm64_install_fails True)
            (install_cmd ''x86_64-pc-windows-gnu'') None None
            (print_lines ['''', ''Ensuring Rust targets are installed...'']
               (after_prereq (host usr_bin arm64_install_fails True) state0))) = Inr True
   \<and> fst (run_command (host usr_bin arm64_install_fails True)
            (install_cmd ''aarch64-pc-windows-gnullvm'') None None
            (snd (run_command (host usr_bin arm64_install_fails True)
                    (install_cmd ''x86_64-pc-windows-gnu'') None None
                    (print_lines ['''', ''Ensuring Rust targets are installed...'']
                       (after_prereq (host usr_bin arm64_install_fails True) state0)))))
       = Inr False
   \<and> exit_status (fst (main (host usr_bin arm64_install_fails True) build_x64 state0)) = 1
   \<and> commands (snd (main (host usr_bin arm64_install_fails True) build_x64 state0)) =
       [[''rustup'', ''target'', ''add'', ''x86_64-pc-windows-gnu''],
        [''rustup'', ''target'', ''add'', ''aarch64-pc-windows-gnullvm'']]
   \<and> take 2 (commands (snd (main (host usr_bin all_succeed True) check_x64 state0))) =
       [[''rustup'', ''target'', ''add'', ''x86_64-pc-windows-gnu''],
        [''rustup'', ''target'', ''add'', ''aarch64-pc-windows-gnullvm'']]"
proof -
  let ?A = "host usr_bin x64_install_fails True"
  let ?B = "host usr_bin arm64_install_fails True"
  let ?C = "host usr_bin all_succeed True"
  let ?p = "\<lambda>w. print_lines ['''', ''Ensuring Rust targets are installed...'']
                  (after_prereq w state0)"
  let ?r = "\<lambda>w. run_command w (install_cmd ''x86_64-pc-windows-gnu'') None None (?p w)"
  let ?q = "\<lambda>w. run_command w (install_cmd ''aarch64-pc-windows-gnullvm'') None None
                  (snd (?r w))"
  have c0: "commands state0 = []"
    by (simp add: commands_def state0_def)
  have pa: "check_prerequisites ?A state0 = (True, after_prereq ?A state0)"
    and pb: "check_prerequisites ?B state0 = (True, after_prereq ?B state0)"
    and pc: "check_prerequisites ?C state0 = (True, after_prereq ?C state0)"
    by (simp_all add: run_defs)
  have ra: "fst (?r ?A) = Inr False"
    and rb: "fst (?r ?B) = Inr True" and qb: "fst (?q ?B) = Inr False"
    and rc: "fst (?r ?C) = Inr True" and qc: "fst (?q ?C) = Inr True"
    by (simp_all add: run_defs)
  have sp: "?r w = (fst (?r w), snd (?r w))" "?q w = (fst (?q w), snd (?q w))" for w
    by simp_all
  from ensure_targets_installs_all [OF pa sp(1) sp(2), of build_all] ra c0
  have a: "exit_status (fst (main ?A build_all state0)) = 1
      \<and> commands (snd (main ?A build_all state0)) =
          [[''rustup'', ''target'', ''add'', ''x86_64-pc-windows-gnu'']]"
    by (simp add: install_cmd_def)
  from ensure_targets_installs_all [OF pb sp(1) sp(2), of build_x64] rb qb c0
  have b: "exit_status (fst (main ?B build_x64 state0)) = 1
      \<and> commands (snd (main ?B build_x64 state0)) =
          [[''rustup'', ''target'', ''add'', ''x86_64-pc-windows-gnu''],
           [''rustup'', ''target'', ''add'', ''aarch64-pc-windows-gnullvm'']]"
    by (simp add: install_cmd_def)
  from ensure_targets_installs_all [OF pc sp(1) sp(2), of check_x64] rc qc c0
  have c: "take 2 (commands (snd (main ?C check_x64 state0))) =
       [[''rustup'', ''target'', ''add'', ''x86_64-pc-windows-gnu''],
        [''rustup'', ''target'', ''add'', ''aarch64-pc-windows-gnullvm'']]"
    by (auto simp: install_cmd_def)
  from pa pb ra rb qb a b c show ?thesis by simp
qed


subsection \<open>The job count\<close>

lemma only_hinted_refl: "only_hinted j st st"
  by (simp add: only_hinted_def)

lemma only_hinted_trans:
  "only_hinted j st st1 \<Longrightarrow> only_hinted j st1 st2 \<Longrightarrow> only_hinted j st st2"
  by (auto simp: only_hinted_def)

lemma only_hinted_same_calls: "calls st1 = calls st \<Longrightarrow> only_hinted j st st1"
  by (simp add: only_hinted_def)

lemma only_hinted_print [simp]:
  "only_hinted j st (print_lines ls st1) = only_hinted j st st1"
  "only_hinted j (print_lines ls st) st1 = only_hinted j st st1"
  by (simp_all add: only_hinted_def print_lines_def)

lemma run_command_hinted:
  assumes "hinted j (cmd, chosen_env w env, chosen_cwd w cwd)"
  shows "only_hinted j st (snd (run_command w cmd env cwd st))"
  using assms by (auto simp: only_hinted_def run_command_calls)

lemma ensure_targets_loop_hinted:
  "only_hinted j st (snd (ensure_targets_loop w ts st))"
proof (induction ts arbitrary: st)
  case Nil
  then show ?case by (simp add: only_hinted_refl)
next
  case (Cons x ts)
  obtain n t where x: "x = (n, t)" by (cases x)
  obtain r st1 where r: "run_command w [''rustup'', ''target'', ''add'', triple t] None None st = (r, st1)"
    by (cases "run_command w [''rustup'', ''target'', ''add'', triple t] None None st")
  have "only_hinted j st (snd (run_command w [''rustup'', ''target'', ''add'', triple t] None None st))"
    by (rule run_command_hinted) (simp add: hinted_def)
  with r have h: "only_hinted j st st1" by simp
  show ?case
  proof (cases r)
    case (Inl e)
    with x r h show ?thesis by simp
  next
    case (Inr ok)
    with x r h only_hinted_trans [OF h Cons.IH [of st1]] show ?thesis
      by (cases ok) simp_all
  qed
qed

lemma ensure_targets_hinted: "only_hinted j st (snd (ensure_targets w st))"
  using ensure_targets_loop_hinted
          [of j "print_lines ['''', ''Ensuring Rust targets are installed...''] st" w TARGETS]
  by (simp add: ensure_targets_def)

lemma build_target_hinted:
  "only_hinted (num_jobs_of w jobs) st (snd (build_target w n jobs st))"
proof (cases "map_of TARGETS n")
  case None
  then show ?thesis by (simp add: build_target_def only_hinted_refl)
next
  case (Some t)
  show ?thesis
  proof (cases "get_env_for_target (os_environ w) n")
    case (Inl e)
    with Some show ?thesis by (simp add: build_target_def Let_def only_hinted_refl)
  next
    case (Inr env)
    have "only_hinted (num_jobs_of w jobs) st
            (snd (run_command w (build_cmd (triple t) (num_jobs_of w jobs))
                   (Some (AList.update ''CARGO_BUILD_JOBS'' (str_int (num_jobs_of w jobs)) env))
                   (Some (PROJECT_DIR w)) st))"
      by (rule run_command_hinted)
         (simp add: hinted_def chosen_env_def update_nonempty update_conv' build_cmd_def)
    with Some Inr show ?thesis
      by (simp add: build_target_def Let_def num_jobs_of_def)
  qed
qed

lemma check_target_hinted: "only_hinted j st (snd (check_target w n st))"
proof (cases "map_of TARGETS n")
  case None
  then show ?thesis by (simp add: check_target_def only_hinted_refl)
next
  case (Some t)
  show ?thesis
  proof (cases "get_env_for_target (os_environ w) n")
    case (Inl e)
    with Some show ?thesis by (simp add: check_target_def only_hinted_refl)
  next
    case (Inr env)
    have "only_hinted j st
            (snd (run_command w (check_cmd (triple t)) (Some env) (Some (PROJECT_DIR w)) st))"
      by (rule run_command_hinted) (simp add: hinted_def check_cmd_def)
    with Some Inr show ?thesis by (simp add: check_target_def)
  qed
qed

lemma build_all_loop_hinted:
  "only_hinted (num_jobs_of w jobs) st (snd (build_all_loop w jobs ns results st))"
proof (induction ns arbitrary: results st)
  case Nil
  then show ?case by (simp add: only_hinted_refl)
next
  case (Cons n ns)
  obtain r st1 where r: "build_target w n jobs st = (r, st1)"
    by (cases "build_target w n jobs st")
  with build_target_hinted [of w jobs st n] have h: "only_hinted (num_jobs_of w jobs) st st1"
    by simp
  show ?case
  proof (cases r)
    case (Inl e)
    with r h show ?thesis by simp
  next
    case (Inr ok)
    with r only_hinted_trans [OF h Cons.IH [of st1 "results @ [(n, ok)]"]] show ?thesis
      by simp
  qed
qed

lemma summary_loop_calls: "calls (snd (summary_loop w rs a st)) = calls st"
proof (induction rs arbitrary: a st)
  case Nil
  then show ?case by simp
next
  case (Cons x rs)
  obtain n success where x: "x = (n, success)" by (cases x)
  obtain r st1 where r: "copy_to_output w n st = (r, st1)"
    by (cases "copy_to_output w n st")
  with copy_to_output_calls [of w n st] have c: "calls st1 = calls st" by simp
  have p: "calls (print_lines ls s) = calls s" for ls s
    by (simp add: print_lines_def)
  show ?case
  proof (cases success)
    case False
    with x Cons.IH [of False "print_lines [''  '' @ n @ '': FAILED to build''] st"] p
    show ?thesis by simp
  next
    case True
    show ?thesis
    proof (cases r)
      case (Inl e)
      with True x r c show ?thesis by simp
    next
      case (Inr po)
      show ?thesis
      proof (cases po)
        case None
        with True x r Inr c p
          Cons.IH [of False "print_lines [''  '' @ n @ '': FAILED to copy''] st1"]
        show ?thesis by simp
      next
        case (Some f)
        with True x r Inr c Cons.IH [of a st1] show ?thesis by simp
      qed
    qed
  qed
qed

lemma main_check_hinted: "only_hinted j st (snd (main_check w a st))"
proof -
  obtain r st1 where r: "ensure_targets w st = (r, st1)"
    by (cases "ensure_targets w st")
  with ensure_targets_hinted [of j st w] have h1: "only_hinted j st st1" by simp
  obtain q st2 where q: "check_target w (args_target a) st1 = (q, st2)"
    by (cases "check_target w (args_target a) st1")
  with check_target_hinted [of j st1 w "args_target a"] have "only_hinted j st1 st2" by simp
  with h1 have h2: "only_hinted j st st2" by (rule only_hinted_trans)
  from r q h1 h2 show ?thesis
    by (auto simp: main_check_def split: sum.splits)
qed

lemma main_build_hinted:
  "only_hinted (num_jobs_of w (args_jobs a)) st (snd (main_build w a st))"
proof -
  let ?j = "num_jobs_of w (args_jobs a)"
  obtain r st1 where r: "ensure_targets w st = (r, st1)"
    by (cases "ensure_targets w st")
  with ensure_targets_hinted [of ?j st w] have h1: "only_hinted ?j st st1" by simp
  obtain q st2 where q: "build_target w (args_target a) (args_jobs a) st1 = (q, st2)"
    by (cases "build_target w (args_target a) (args_jobs a) st1")
  with build_target_hinted [of w "args_jobs a" st1 "args_target a"]
  have "only_hinted ?j st1 st2" by simp
  with h1 have h2: "only_hinted ?j st st2" by (rule only_hinted_trans)
  obtain p st3 where p: "copy_to_output w (args_target a) st2 = (p, st3)"
    by (cases "copy_to_output w (args_target a) st2")
  with copy_to_output_calls [of w "args_target a" st2] have "calls st3 = calls st2" by simp
  then have "only_hinted ?j st2 st3" by (rule only_hinted_same_calls)
  with h2 have h3: "only_hinted ?j st st3" by (rule only_hinted_trans)
  from r q p h1 h2 h3 show ?thesis
    by (auto simp: main_build_def split: sum.splits option.splits)
qed

lemma main_build_all_hinted:
  "only_hinted (num_jobs_of w (args_jobs a)) st (snd (main_build_all w a st))"
proof -
  let ?j = "num_jobs_of w (args_jobs a)"
  obtain r st1 where r: "ensure_targets w st = (r, st1)"
    by (cases "ensure_targets w st")
  with ensure_targets_hinted [of ?j st w] have h1: "only_hinted ?j st st1" by simp
  obtain q st2 where q: "build_all_loop w (args_jobs a) (map fst TARGETS) [] st1 = (q, st2)"
    by (cases "build_all_loop w (args_jobs a) (map fst TARGETS) [] st1")
  with build_all_loop_hinted [of w "args_jobs a" st1 "map fst TARGETS" "[]"]
  have "only_hinted ?j st1 st2" by simp
  with h1 have h2: "only_hinted ?j st st2" by (rule only_hinted_trans)
  have h3: "only_hinted ?j st (snd (summary_loop w rs True st2))" for rs
    using only_hinted_trans [OF h2 only_hinted_same_calls [OF summary_loop_calls]] .
  show ?thesis
  proof (cases "\<exists>rs. q = Inr rs")
    case False
    with r q h1 h2 show ?thesis
      by (cases q) (auto simp: main_build_all_def split: sum.splits)
  next
    case True
    then obtain rs where rs: "q = Inr rs" ..
    obtain p st3 where p: "summary_loop w rs True st2 = (p, st3)"
      by (cases "summary_loop w rs True st2")
    with h3 [of rs] have "only_hinted ?j st st3" by simp
    with r q rs p h1 show ?thesis
      by (auto simp: main_build_all_def split: sum.splits)
  qed
qed

lemma main_hinted: "only_hinted (num_jobs_of w (args_jobs a)) st0 (snd (main w a st0))"
proof -
  let ?j = "num_jobs_of w (args_jobs a)"
  obtain ok st1 where c: "check_prerequisites w st0 = (ok, st1)"
    by (cases "check_prerequisites w st0")
  with check_prerequisites_frame(1) [of w st0] have "calls st1 = calls st0" by simp
  then have h: "only_hinted ?j st0 st1" by (rule only_hinted_same_calls)
  show ?thesis
  proof (cases ok)
    case False
    with c h show ?thesis by (simp add: main_def)
  next
    case True
    with c only_hinted_trans [OF h main_check_hinted [of ?j st1 w a]]
      only_hinted_trans [OF h main_build_hinted [of w a st1]]
      only_hinted_trans [OF h main_build_all_hinted [of w a st1]]
    show ?thesis by (cases "args_action a") (simp_all add: main_def)
  qed
qed

text \<open>
  Claim C7, as stated, fails: \<^verbatim>\<open>get_env_for_target\<close> binds no job-count variable, and in a
  \<^verbatim>\<open>check\<close> run with \<^verbatim>\<open>-j 4\<close> none of the three processes started (two \<^verbatim>\<open>rustup\<close>, one
  \<^verbatim>\<open>cargo check\<close>) has \<^verbatim>\<open>CARGO_BUILD_JOBS\<close> in its environment.
\<close>

theorem check_run_has_no_jobs_hint:
  "get_env_for_target usr_bin ''x64'' =
     Inr [(''PATH'', ''/usr/bin''),
          (''CC_x86_64_pc_windows_gnu'', ''x86_64-w64-mingw32-gcc''),
          (''AR_x86_64_pc_windows_gnu'', ''x86_64-w64-mingw32-ar''),
          (''CARGO_TARGET_X86_64_PC_WINDOWS_GNU_LINKER'', ''x86_64-w64-mingw32-gcc'')]
   \<and> commands (snd (main (host usr_bin all_succeed True) check_x64 state0)) =
       [[''rustup'', ''target'', ''add'', ''x86_64-pc-windows-gnu''],
        [''rustup'', ''target'', ''add'', ''aarch64-pc-windows-gnullvm''],
        [''cargo'', ''check'', ''--target'', ''x86_64-pc-windows-gnu'']]
   \<and> jobs_hints (snd (main (host usr_bin all_succeed True) check_x64 state0)) = [None, None, None]"
  by (simp add: run_defs)

text \<open>
  Claim C7, amended. It is \<^verbatim>\<open>build_target\<close>, not \<^verbatim>\<open>get_env_for_target\<close>, that binds
  \<^verbatim>\<open>CARGO_BUILD_JOBS\<close>: on top of the environment derived by \<^verbatim>\<open>get_env_for_target\<close>, which
  leaves that variable as the host has it, to the decimal job count. The job count is the
  explicit \<^verbatim>\<open>jobs\<close> when given and \<^verbatim>\<open>CPU_COUNT\<close> otherwise. In every run of \<^verbatim>\<open>main\<close>, every
  \<^verbatim>\<open>cargo build\<close> process started has this binding in its environment and the same number
  after \<^verbatim>\<open>-j\<close> on its command line.
\<close>

theorem jobs_hint_binding:
  "(map_of TARGETS n = Some t \<and> get_env_for_target (os_environ w) n = Inr env \<longrightarrow>
      calls (snd (build_target w n jobs st)) =
        calls st @ [(build_cmd (triple t) (num_jobs_of w jobs),
                     AList.update ''CARGO_BUILD_JOBS'' (str_int (num_jobs_of w jobs)) env,
                     PROJECT_DIR w)]
      \<and> jobs_hints (snd (build_target w n jobs st)) =
          jobs_hints st @ [Some (str_int (num_jobs_of w jobs))]
      \<and> map_of env ''CARGO_BUILD_JOBS'' = map_of (os_environ w) ''CARGO_BUILD_JOBS'')
   \<and> num_jobs_of w (Some j) = j \<and> num_jobs_of w None = CPU_COUNT w
   \<and> only_hinted (num_jobs_of w (args_jobs a)) st0 (snd (main w a st0))"
proof -
  have "calls (snd (build_target w n jobs st)) =
        calls st @ [(build_cmd (triple t) (num_jobs_of w jobs),
                     AList.update ''CARGO_BUILD_JOBS'' (str_int (num_jobs_of w jobs)) env,
                     PROJECT_DIR w)]
      \<and> jobs_hints (snd (build_target w n jobs st)) =
          jobs_hints st @ [Some (str_int (num_jobs_of w jobs))]
      \<and> map_of env ''CARGO_BUILD_JOBS'' = map_of (os_environ w) ''CARGO_BUILD_JOBS''"
    if h: "map_of TARGETS n = Some t" "get_env_for_target (os_environ w) n = Inr env"
    by (simp add: build_target_calls [OF h] get_env_jobs_key [OF h(2)] jobs_hints_def envs_def
          update_conv' num_jobs_of_def)
  moreover have "num_jobs_of w (Some j) = j \<and> num_jobs_of w None = CPU_COUNT w"
    by (simp add: num_jobs_of_def)
  ultimately show ?thesis
    using main_hinted [of w a st0] by blast
qed

theorem jobs_hint_binding_witness:
  "map_of TARGETS ''x64'' =
     Some \<lparr>triple = ''x86_64-pc-windows-gnu'', cc = ''x86_64-w64-mingw32-gcc'',
           ar = ''x86_64-w64-mingw32-ar'', linker = ''x86_64-w64-mingw32-gcc'',
           use_llvm_mingw = False\<rparr>
   \<and> get_env_for_target (os_environ (host usr_bin all_succeed True)) ''x64'' =
       Inr [(''PATH'', ''/usr/bin''),
            (''CC_x86_64_pc_windows_gnu'', ''x86_64-w64-mingw32-gcc''),
            (''AR_x86_64_pc_windows_gnu'', ''x86_64-w64-mingw32-ar''),
            (''CARGO_TARGET_X86_64_PC_WINDOWS_GNU_LINKER'', ''x86_64-w64-mingw32-gcc'')]
   \<and> jobs_hints (snd (build_target (host usr_bin all_succeed True) ''x64'' (Some 4) state0))
       = [Some ''4'']
   \<and> jobs_hints (snd (build_target (host usr_bin all_succeed True) ''x64'' None state0))
       = [Some ''8'']
   \<and> commands (snd (build_target (host usr_bin all_succeed True) ''x64'' None state0))
       = [[''cargo'', ''build'', ''--release'', ''--target'', ''x86_64-pc-windows-gnu'',
           ''-j'', ''8'']]
   \<and> last (calls (snd (main (host usr_bin all_succeed True) build_x64_j4 state0)))
       \<in> set (calls (snd (main (host usr_bin all_succeed True) build_x64_j4 state0)))
   \<and> last (calls (snd (main (host usr_bin all_succeed True) build_x64_j4 state0)))
       \<notin> set (calls state0)
   \<and> take 2 (fst (last (calls (snd (main (host usr_bin all_succeed True) build_x64_j4 state0)))))
       = [''cargo'', ''build'']
   \<and> map_of (fst (snd (last (calls (snd (main (host usr_bin all_succeed True) build_x64_j4
                                           state0))))))
        ''CARGO_BUILD_JOBS'' = Some ''4''
   \<and> drop 5 (fst (last (calls (snd (main (host usr_bin all_succeed True) build_x64_j4 state0)))))
       = [''-j'', ''4'']"
proof -
  let ?W = "host usr_bin all_succeed True"
  let ?c = "last (calls (snd (main ?W build_x64_j4 state0)))"
  let ?T = "\<lparr>triple = ''x86_64-pc-windows-gnu'', cc = ''x86_64-w64-mingw32-gcc'',
           ar = ''x86_64-w64-mingw32-ar'', linker = ''x86_64-w64-mingw32-gcc'',
           use_llvm_mingw = False\<rparr>"
  let ?E = "[(''PATH'', ''/usr/bin''),
            (''CC_x86_64_pc_windows_gnu'', ''x86_64-w64-mingw32-gcc''),
            (''AR_x86_64_pc_windows_gnu'', ''x86_64-w64-mingw32-ar''),
            (''CARGO_TARGET_X86_64_PC_WINDOWS_GNU_LINKER'', ''x86_64-w64-mingw32-gcc'')]"
  have h1: "map_of TARGETS ''x64'' =
     Some \<lparr>triple = ''x86_64-pc-windows-gnu'', cc = ''x86_64-w64-mingw32-gcc'',
           ar = ''x86_64-w64-mingw32-ar'', linker = ''x86_64-w64-mingw32-gcc'',
           use_llvm_mingw = False\<rparr>"
    by (simp add: TARGETS_def)
  have h2: "get_env_for_target (os_environ ?W) ''x64'' =
       Inr [(''PATH'', ''/usr/bin''),
            (''CC_x86_64_pc_windows_gnu'', ''x86_64-w64-mingw32-gcc''),
            (''AR_x86_64_pc_windows_gnu'', ''x86_64-w64-mingw32-ar''),
            (''CARGO_TARGET_X86_64_PC_WINDOWS_GNU_LINKER'', ''x86_64-w64-mingw32-gcc'')]"
    by (simp add: get_env_x64 host_def usr_bin_def)
  have s: "jobs_hints state0 = []" "calls state0 = []"
    by (simp_all add: jobs_hints_def envs_def state0_def)
  have n: "str_int 4 = ''4''" "str_int 8 = ''8''" "CPU_COUNT ?W = 8" "PROJECT_DIR ?W = [''src'', ''htop-win'']"
    "args_jobs build_x64_j4 = Some 4"
    by (simp_all add: str_int_def str_nat.simps digit_char_def host_def build_x64_j4_def)
  from jobs_hint_binding [where n = "''x64''" and t = ?T and w = ?W and env = ?E
      and jobs = "Some 4" and st = state0 and j = 4 and a = build_x64_j4 and ?st0.0 = state0]
    h1 h2 s n
  have a: "jobs_hints (snd (build_target ?W ''x64'' (Some 4) state0)) = [Some ''4'']"
    and m: "only_hinted 4 state0 (snd (main ?W build_x64_j4 state0))"
    by (simp_all add: num_jobs_of_def)
  from jobs_hint_binding [where n = "''x64''" and t = ?T and w = ?W and env = ?E
      and jobs = None and st = state0 and j = 4 and a = build_x64_j4 and ?st0.0 = state0]
    h1 h2 s n
  have b: "jobs_hints (snd (build_target ?W ''x64'' None state0)) = [Some ''8'']"
    and c: "commands (snd (build_target ?W ''x64'' None state0))
       = [[''cargo'', ''build'', ''--release'', ''--target'', ''x86_64-pc-windows-gnu'',
           ''-j'', ''8'']]"
    by (simp_all add: commands_def build_cmd_def num_jobs_of_def)
  have i: "?c \<in> set (calls (snd (main ?W build_x64_j4 state0)))"
    and t: "take 2 (fst ?c) = [''cargo'', ''build'']"
    by (simp_all add: run_defs)
  from m i s(2) have "hinted 4 ?c"
    by (auto simp: only_hinted_def)
  with t n have d: "map_of (fst (snd ?c)) ''CARGO_BUILD_JOBS'' = Some ''4''"
    "drop 5 (fst ?c) = [''-j'', ''4'']"
    by (simp_all add: hinted_def)
  from h1 h2 a b c i s(2) t d show ?thesis by simp
qed


subsection \<open>Staging\<close>

lemma build_path_shape:
  assumes "get_build_output_path w m = Inr p"
  shows "last p = ''htop-win.exe'' \<and> 4 \<le> length p"
  using assms by (auto simp: get_build_output_path_def TARGET_DIR_def split: option.splits)

lemma build_path_not_staged:
  assumes "get_build_output_path w m = Inr p"
  shows "p \<noteq> get_final_output_path n" and "p \<notin> set (prefixes OUTPUT_DIR)"
proof -
  from build_path_shape [OF assms] have l: "last p = ''htop-win.exe''" and n: "4 \<le> length p"
    by simp_all
  from l show "p \<noteq> get_final_output_path n"
    by (auto simp: get_final_output_path_def OUTPUT_DIR_def)
  from n show "p \<notin> set (prefixes OUTPUT_DIR)"
    by (auto simp: OUTPUT_DIR_def)
qed

lemma copy_to_output_missing:
  assumes "get_build_output_path w n = Inr p" and "p \<notin> files st"
  shows "copy_to_output w n st =
           (Inr None, print_lines [''Error: Built executable not found at '' @ path_str p] st)"
  using assms by (simp add: copy_to_output_def)

lemma copy_to_output_present:
  assumes "get_build_output_path w n = Inr p" and "p \<in> files st"
    and "mkdir_ok w OUTPUT_DIR" and "copy2_ok w p (get_final_output_path n)"
  shows "fst (copy_to_output w n st) = Inr (Some (get_final_output_path n))"
    and "copied (snd (copy_to_output w n st)) = copied st @ [(p, get_final_output_path n)]"
    and "get_final_output_path n \<in> files (snd (copy_to_output w n st))"
  using assms by (simp_all add: copy_to_output_def Let_def print_lines_def)

lemma copy_to_output_Inr:
  assumes "copy_to_output w n st = (Inr r, st1)"
  shows "\<exists>p. get_build_output_path w n = Inr p
           \<and> (case r of
                 None \<Rightarrow> p \<notin> files st \<and> copied st1 = copied st
               | Some q \<Rightarrow> p \<in> files st \<and> q = get_final_output_path n
                            \<and> copied st1 = copied st @ [(p, q)])"
  using assms
  by (auto simp: copy_to_output_def Let_def print_lines_def split: sum.splits if_splits)

lemma copy_to_output_copied_mono:
  "set (copied st) \<subseteq> set (copied (snd (copy_to_output w n st)))"
  by (auto simp: copy_to_output_def Let_def print_lines_def split: sum.splits)

lemma copy_to_output_build_paths:
  assumes "get_build_output_path w m = Inr p"
  shows "p \<in> files (snd (copy_to_output w n st)) \<longleftrightarrow> p \<in> files st"
  using build_path_not_staged(1) [OF assms, of n] build_path_not_staged(2) [OF assms]
  by (auto simp: copy_to_output_def Let_def print_lines_def split: sum.splits)

lemma files_print_lines [simp]: "files (print_lines ls st) = files st"
  by (simp add: print_lines_def)

lemma copied_print_lines [simp]: "copied (print_lines ls st) = copied st"
  by (simp add: print_lines_def)

lemma summary_loop_copied_mono:
  "set (copied st) \<subseteq> set (copied (snd (summary_loop w rs a st)))"
proof (induction rs arbitrary: a st)
  case Nil
  then show ?case by simp
next
  case (Cons x rs)
  obtain n success where x: "x = (n, success)" by (cases x)
  obtain r st1 where r: "copy_to_output w n st = (r, st1)"
    by (cases "copy_to_output w n st")
  with copy_to_output_copied_mono [of st w n]
  have m: "set (copied st) \<subseteq> set (copied st1)" by simp
  show ?case
  proof (cases success)
    case False
    with x Cons.IH [of "print_lines [''  '' @ n @ '': FAILED to build''] st" False]
    show ?thesis by simp
  next
    case True
    show ?thesis
    proof (cases r)
      case (Inl e)
      with True x r m show ?thesis by simp
    next
      case (Inr po)
      show ?thesis
      proof (cases po)
        case None
        with True x r Inr m
          Cons.IH [of "print_lines [''  '' @ n @ '': FAILED to copy''] st1" False]
        show ?thesis by auto
      next
        case (Some f)
        with True x r Inr m Cons.IH [of st1 a]
        show ?thesis by auto
      qed
    qed
  qed
qed

lemma summary_loop_result:
  assumes "summary_loop w rs a st = (Inr r, st')"
  shows "r = (a \<and> (\<forall>(n, ok)\<in>set rs. ok \<and> (\<exists>p. get_build_output_path w n = Inr p \<and> p \<in> files st)))
       \<and> (\<forall>n p. (n, True) \<in> set rs \<and> get_build_output_path w n = Inr p \<and> p \<in> files st
              \<longrightarrow> (p, get_final_output_path n) \<in> set (copied st'))"
  using assms
proof (induction rs arbitrary: a st)
  case Nil
  then show ?case by simp
next
  case (Cons x rs)
  obtain n success where x: "x = (n, success)" by (cases x)
  show ?case
  proof (cases success)
    case False
    with Cons.prems x have s: "summary_loop w rs False
             (print_lines [''  '' @ n @ '': FAILED to build''] st) = (Inr r, st')"
      by simp
    from Cons.IH [OF s] False x show ?thesis by auto
  next
    case True
    obtain q st1 where q: "copy_to_output w n st = (q, st1)"
      by (cases "copy_to_output w n st")
    from Cons.prems True x q obtain po where po: "q = Inr po"
      by (cases q) auto
    from copy_to_output_Inr [OF q [unfolded po]] obtain p where
      p: "get_build_output_path w n = Inr p"
      and c: "case po of
                 None \<Rightarrow> p \<notin> files st \<and> copied st1 = copied st
               | Some f \<Rightarrow> p \<in> files st \<and> f = get_final_output_path n
                            \<and> copied st1 = copied st @ [(p, f)]"
      by blast
    have inv: "p' \<in> files st1 \<longleftrightarrow> p' \<in> files st" if "get_build_output_path w m = Inr p'" for m p'
      using copy_to_output_build_paths [OF that, of n st] q by simp
    show ?thesis
    proof (cases po)
      case None
      with Cons.prems True x q po have s: "summary_loop w rs False
             (print_lines [''  '' @ n @ '': FAILED to copy''] st1) = (Inr r, st')"
        by simp
      from c None have notin: "p \<notin> files st" by simp
      from Cons.IH [OF s] have f: "r = False"
        and st: "\<forall>m p'. (m, True) \<in> set rs \<and> get_build_output_path w m = Inr p' \<and> p' \<in> files st1
              \<longrightarrow> (p', get_final_output_path m) \<in> set (copied st')"
        by simp_all
      from f p notin x True have 1: "r = (a \<and> (\<forall>(n, ok)\<in>set (x # rs). ok \<and>
              (\<exists>p. get_build_output_path w n = Inr p \<and> p \<in> files st)))"
        by auto
      have 2: "(p', get_final_output_path m) \<in> set (copied st')"
        if "(m, True) \<in> set (x # rs)" "get_build_output_path w m = Inr p'" "p' \<in> files st"
        for m p'
      proof (cases "(m, True) \<in> set rs")
        case True
        with st that inv [OF that(2)] show ?thesis by blast
      next
        case False
        with that x have "m = n" by simp
        with that p notin show ?thesis by simp
      qed
      from 1 2 show ?thesis by blast
    next
      case (Some f)
      with Cons.prems True x q po have s: "summary_loop w rs a st1 = (Inr r, st')"
        by simp
      from c Some have here: "(p, get_final_output_path n) \<in> set (copied st1)"
        and pin: "p \<in> files st"
        by auto
      from summary_loop_copied_mono [of st1 w rs a] s here
      have staged: "(p, get_final_output_path n) \<in> set (copied st')"
        by auto
      from Cons.IH [OF s] have r: "r = (a \<and> (\<forall>(n, ok)\<in>set rs. ok \<and>
              (\<exists>p. get_build_output_path w n = Inr p \<and> p \<in> files st1)))"
        and st: "\<forall>m p'. (m, True) \<in> set rs \<and> get_build_output_path w m = Inr p' \<and> p' \<in> files st1
              \<longrightarrow> (p', get_final_output_path m) \<in> set (copied st')"
        by simp_all
      have "(\<forall>(n, ok)\<in>set rs. ok \<and> (\<exists>p. get_build_output_path w n = Inr p \<and> p \<in> files st1))
          = (\<forall>(n, ok)\<in>set rs. ok \<and> (\<exists>p. get_build_output_path w n = Inr p \<and> p \<in> files st))"
        using inv by (auto split: prod.splits) blast+
      with r p pin x True have 1: "r = (a \<and> (\<forall>(n, ok)\<in>set (x # rs). ok \<and>
              (\<exists>p. get_build_output_path w n = Inr p \<and> p \<in> files st)))"
        by auto
      have 2: "(p', get_final_output_path m) \<in> set (copied st')"
        if "(m, True) \<in> set (x # rs)" "get_build_output_path w m = Inr p'" "p' \<in> files st"
        for m p'
      proof (cases "(m, True) \<in> set rs")
        case True
        with st that inv [OF that(2)] show ?thesis by blast
      next
        case False
        with that x have "m = n" by simp
        with that p staged show ?thesis by simp
      qed
      from 1 2 show ?thesis by blast
    qed
  qed
qed


lemma main_build_missing_artifact:
  assumes "check_prerequisites w st0 = (True, st1)" and "ensure_targets w st1 = (Inr True, st2)"
    and "args_action a = Build" and "build_target w (args_target a) (args_jobs a) st2 = (Inr True, st3)"
    and "get_build_output_path w (args_target a) = Inr p" and "p \<notin> files st3"
  shows "fst (main w a st0) = Inr 1"
  using assms
  by (simp add: main_after_prerequisites [OF assms(1)] main_build_def copy_to_output_missing)

lemma main_build_all_missing_artifact:
  assumes "check_prerequisites w st0 = (True, st1)" and "ensure_targets w st1 = (Inr True, st2)"
    and "args_action a = BuildAll"
    and "build_all_loop w (args_jobs a) (map fst TARGETS) [] st2 = (Inr results, st3)"
    and "(n, True) \<in> set results"
    and "get_build_output_path w n = Inr p" and "p \<notin> files st3"
  shows "exit_status (fst (main w a st0)) = 1"
proof -
  obtain q st4 where q: "summary_loop w results True st3 = (q, st4)"
    by (cases "summary_loop w results True st3")
  show ?thesis
  proof (cases q)
    case (Inl e)
    with assms q show ?thesis
      by (simp add: main_after_prerequisites [OF assms(1)] main_build_all_def exit_status_def)
  next
    case (Inr r)
    from summary_loop_result [OF q [unfolded Inr]] assms(5,6,7) have "\<not> r"
      by auto
    with assms q Inr show ?thesis
      by (simp add: main_after_prerequisites [OF assms(1)] main_build_all_def exit_status_def)
  qed
qed

text \<open>
  Claim C6. For a registered target (one whose build-output path is defined), when that
  path does not exist \<^verbatim>\<open>copy_to_output\<close> returns \<^verbatim>\<open>None\<close> and copies nothing; it never looks at
  the result of the build command. In a \<^verbatim>\<open>build\<close> run whose build command returned success
  the run then exits with status 1; in a \<^verbatim>\<open>build-all\<close> run a target recorded as built whose
  executable is missing when the builds are over makes the exit status 1.
\<close>

theorem missing_artifact_fails:
  assumes "get_build_output_path w n = Inr p"
  shows "(p \<notin> files st \<longrightarrow>
            fst (copy_to_output w n st) = Inr None
            \<and> files (snd (copy_to_output w n st)) = files st
            \<and> copied (snd (copy_to_output w n st)) = copied st)
       \<and> (check_prerequisites w st0 = (True, st1) \<and> ensure_targets w st1 = (Inr True, st2)
          \<and> args_action a = Build \<and> args_target a = n
          \<and> build_target w n (args_jobs a) st2 = (Inr True, st3) \<and> p \<notin> files st3 \<longrightarrow>
            fst (main w a st0) = Inr 1)
       \<and> (check_prerequisites w st0 = (True, st1) \<and> ensure_targets w st1 = (Inr True, st2)
          \<and> args_action b = BuildAll
          \<and> build_all_loop w (args_jobs b) (map fst TARGETS) [] st2 = (Inr results, st4)
          \<and> (n, True) \<in> set results \<and> p \<notin> files st4 \<longrightarrow>
            exit_status (fst (main w b st0)) = 1)"
proof -
  have 1: "p \<notin> files st \<longrightarrow>
            fst (copy_to_output w n st) = Inr None
            \<and> files (snd (copy_to_output w n st)) = files st
            \<and> copied (snd (copy_to_output w n st)) = copied st"
    by (simp add: copy_to_output_missing [OF assms])
  have 2: "check_prerequisites w st0 = (True, st1) \<and> ensure_targets w st1 = (Inr True, st2)
          \<and> args_action a = Build \<and> args_target a = n
          \<and> build_target w n (args_jobs a) st2 = (Inr True, st3) \<and> p \<notin> files st3 \<longrightarrow>
            fst (main w a st0) = Inr 1"
  proof (intro impI, elim conjE)
    assume h: "check_prerequisites w st0 = (True, st1)" "ensure_targets w st1 = (Inr True, st2)"
      "args_action a = Build" "args_target a = n"
      "build_target w n (args_jobs a) st2 = (Inr True, st3)" "p \<notin> files st3"
    show "fst (main w a st0) = Inr 1"
      by (rule main_build_missing_artifact [OF h(1) h(2) h(3) _ _ h(6)])
         (simp_all add: h assms)
  qed
  have 3: "check_prerequisites w st0 = (True, st1) \<and> ensure_targets w st1 = (Inr True, st2)
          \<and> args_action b = BuildAll
          \<and> build_all_loop w (args_jobs b) (map fst TARGETS) [] st2 = (Inr results, st4)
          \<and> (n, True) \<in> set results \<and> p \<notin> files st4 \<longrightarrow>
            exit_status (fst (main w b st0)) = 1"
  proof (intro impI, elim conjE)
    assume h: "check_prerequisites w st0 = (True, st1)" "ensure_targets w st1 = (Inr True, st2)"
      "args_action b = BuildAll"
      "build_all_loop w (args_jobs b) (map fst TARGETS) [] st2 = (Inr results, st4)"
      "(n, True) \<in> set results" "p \<notin> files st4"
    show "exit_status (fst (main w b st0)) = 1"
      by (rule main_build_all_missing_artifact [OF h(1) h(2) h(3) h(4) h(5) assms h(6)])
  qed
  from 1 2 3 show ?thesis by blast
qed


theorem missing_artifact_fails_witness:
  "get_build_output_path (host usr_bin all_succeed False) ''x64'' = Inr x64_exe
   \<and> x64_exe \<notin> files state0
   \<and> fst (copy_to_output (host usr_bin all_succeed False) ''x64'' state0) = Inr None
   \<and> fst (build_target (host usr_bin all_succeed False) ''x64'' None
             (after_ensure (host usr_bin all_succeed False) state0)) = Inr True
   \<and> fst (main (host usr_bin all_succeed False) build_x64 state0) = Inr 1
   \<and> fst (build_all_loop (host usr_bin all_succeed False) None (map fst TARGETS) []
             (after_ensure (host usr_bin all_succeed False) state0))
       = Inr [(''x64'', True), (''arm64'', True)]
   \<and> exit_status (fst (main (host usr_bin all_succeed False) build_all state0)) = 1"
proof -
  let ?W = "host usr_bin all_succeed False"
  let ?S3 = "snd (build_target ?W ''x64'' None (after_ensure ?W state0))"
  let ?S3' = "snd (build_all_loop ?W None (map fst TARGETS) [] (after_ensure ?W state0))"
  have g: "get_build_output_path ?W ''x64'' = Inr x64_exe"
    by (simp add: run_defs)
  have f0: "x64_exe \<notin> files state0"
    by (simp add: run_defs)
  have h1: "check_prerequisites ?W state0 = (True, after_prereq ?W state0)"
    by (simp add: run_defs)
  have h2: "ensure_targets ?W (after_prereq ?W state0) = (Inr True, after_ensure ?W state0)"
    by (simp add: run_defs)
  have a: "args_action build_x64 = Build" "args_target build_x64 = ''x64''"
    "args_jobs build_x64 = None" "args_action build_all = BuildAll" "args_jobs build_all = None"
    by (simp_all add: build_x64_def build_all_def)
  have b: "fst (build_target ?W ''x64'' None (after_ensure ?W state0)) = Inr True"
    by (simp add: run_defs)
  then have h3: "build_target ?W ''x64'' (args_jobs build_x64) (after_ensure ?W state0) = (Inr True, ?S3)"
    by (simp add: a prod_eq_iff)
  have f3: "x64_exe \<notin> files ?S3"
    by (simp add: run_defs)
  have l: "fst (build_all_loop ?W None (map fst TARGETS) [] (after_ensure ?W state0))
       = Inr [(''x64'', True), (''arm64'', True)]"
    by (simp add: run_defs)
  then have h4: "build_all_loop ?W (args_jobs build_all) (map fst TARGETS) [] (after_ensure ?W state0)
       = (Inr [(''x64'', True), (''arm64'', True)], ?S3')"
    by (simp add: a prod_eq_iff)
  have f4: "x64_exe \<notin> files ?S3'"
    by (simp add: run_defs)
  have m: "(''x64'', True) \<in> set [(''x64'', True), (''arm64'', True)]"
    by simp
  from missing_artifact_fails [OF g, where st = state0 and ?st0.0 = state0
      and ?st1.0 = "after_prereq ?W state0" and ?st2.0 = "after_ensure ?W state0" and a = build_x64
      and ?st3.0 = ?S3 and b = build_all and results = "[(''x64'', True), (''arm64'', True)]"
      and ?st4.0 = ?S3']
    g f0 h1 h2 a h3 f3 h4 f4 m b l
  show ?thesis by simp
qed


subsection \<open>The build-all run\<close>

lemma get_env_returns:
  assumes "map_of TARGETS n = Some t" and "map_of environ ''PATH'' \<noteq> None"
  shows "\<exists>env. get_env_for_target environ n = Inr env"
  using map_of_TARGETS_cases [OF assms(1)] assms(2)
  by (auto simp: get_env_x64 get_env_arm64 split: option.splits)

lemma build_target_returns:
  assumes "map_of TARGETS n = Some t" and "map_of (os_environ w) ''PATH'' \<noteq> None"
    and "\<forall>cmd e d fs. fst (subprocess_run w cmd e d fs) \<noteq> SpawnFailed"
  shows "\<exists>ok st1. build_target w n jobs st = (Inr ok, st1)
           \<and> commands st1 = commands st
                @ [build_cmd (triple t) (case jobs of Some j \<Rightarrow> j | None \<Rightarrow> CPU_COUNT w)]"
proof -
  from get_env_returns [OF assms(1,2)] obtain env where
    env: "get_env_for_target (os_environ w) n = Inr env" ..
  let ?j = "case jobs of Some j \<Rightarrow> j | None \<Rightarrow> CPU_COUNT w"
  let ?r = "run_command w (build_cmd (triple t) ?j)
              (Some (AList.update ''CARGO_BUILD_JOBS'' (str_int ?j) env)) (Some (PROJECT_DIR w)) st"
  have b: "build_target w n jobs st = ?r"
    using assms(1) env by (simp add: build_target_def Let_def)
  from assms(3) run_command_result [of w "build_cmd (triple t) ?j"
      "Some (AList.update ''CARGO_BUILD_JOBS'' (str_int ?j) env)" "Some (PROJECT_DIR w)" st]
  obtain ok where ok: "fst ?r = Inr ok"
    by (auto split: proc_result.splits)
  have c: "commands (snd ?r) = commands st @ [build_cmd (triple t) ?j]"
    by (rule commands_run_command)
  from b ok c have "build_target w n jobs st = (Inr ok, snd ?r)
      \<and> commands (snd ?r) = commands st @ [build_cmd (triple t) ?j]"
    by (simp add: prod_eq_iff)
  then show ?thesis by blast
qed

lemma build_all_loop_returns:
  assumes "\<forall>(n, t)\<in>set ts. map_of TARGETS n = Some t"
    and "map_of (os_environ w) ''PATH'' \<noteq> None"
    and "\<forall>cmd e d fs. fst (subprocess_run w cmd e d fs) \<noteq> SpawnFailed"
  shows "\<exists>rs st1. build_all_loop w jobs (map fst ts) results st = (Inr rs, st1)
           \<and> map fst rs = map fst results @ map fst ts
           \<and> set results \<subseteq> set rs
           \<and> commands st1 = commands st
                @ map (\<lambda>(n, t). build_cmd (triple t)
                                    (case jobs of Some j \<Rightarrow> j | None \<Rightarrow> CPU_COUNT w)) ts"
  using assms(1)
proof (induction ts arbitrary: results st)
  case Nil
  then show ?case by simp
next
  case (Cons x ts)
  obtain n t where x: "x = (n, t)" by (cases x)
  with Cons.prems have nt: "map_of TARGETS n = Some t"
    and rest: "\<forall>(n, t)\<in>set ts. map_of TARGETS n = Some t"
    by auto
  from build_target_returns [OF nt assms(2,3), of jobs st] obtain ok st1 where
    b: "build_target w n jobs st = (Inr ok, st1)"
    and c: "commands st1 = commands st
                @ [build_cmd (triple t) (case jobs of Some j \<Rightarrow> j | None \<Rightarrow> CPU_COUNT w)]"
    by blast
  from Cons.IH [OF rest, of "results @ [(n, ok)]" st1] obtain rs st2 where
    l: "build_all_loop w jobs (map fst ts) (results @ [(n, ok)]) st1 = (Inr rs, st2)"
    and k: "map fst rs = map fst (results @ [(n, ok)]) @ map fst ts"
    and s: "set (results @ [(n, ok)]) \<subseteq> set rs"
    and d: "commands st2 = commands st1
                @ map (\<lambda>(n, t). build_cmd (triple t)
                                    (case jobs of Some j \<Rightarrow> j | None \<Rightarrow> CPU_COUNT w)) ts"
    by blast
  from x b l k s c d have
    "build_all_loop w jobs (map fst (x # ts)) results st = (Inr rs, st2)
     \<and> map fst rs = map fst results @ map fst (x # ts)
     \<and> set results \<subseteq> set rs
     \<and> commands st2 = commands st
          @ map (\<lambda>(n, t). build_cmd (triple t)
                              (case jobs of Some j \<Rightarrow> j | None \<Rightarrow> CPU_COUNT w)) (x # ts)"
    by auto
  then show ?case by blast
qed

lemma distinct_TARGETS: "\<forall>(n, t)\<in>set TARGETS. map_of TARGETS n = Some t"
  by (simp add: TARGETS_def)

















end
